theory Spec2Isabelle
  imports Complex_Main "HOL-Library.Stream"
begin

section \<open>Python values: errors, random source, arrays\<close>

text \<open>
  Exceptions of the Python program are values: every function that can raise returns
  \<open>error + 'a\<close>, with \<open>Inl\<close> carrying the exception class. \<open>LoadError\<close> is the failure of the
  image loader, \<open>ExternalError\<close> any failure inside OpenCV or imgaug.
\<close>

datatype error = ValueError | IndexError | TypeError | LoadError | ExternalError

text \<open>
  The random generator behind \<open>np.random\<close> is a stream of raw words; each sampler reads one
  word and returns the rest of the stream. \<open>rand\<close> builds a double from 53 random bits, so
  its value lies in \<open>[0, 1)\<close>. \<open>randint low high\<close> raises ValueError when \<open>low >= high\<close>
  (before anything is drawn) and otherwise returns a value of \<open>[low, high)\<close>. The int64
  bounds check of \<open>randint\<close> is not modelled: array extents are far below that bound.
\<close>

type_synonym rng = "nat stream"

definition rand :: "rng \<Rightarrow> real \<times> rng" where
  "rand g = (real (shd g mod 2 ^ 53) / 2 ^ 53, stl g)"

definition randint :: "int \<Rightarrow> int \<Rightarrow> rng \<Rightarrow> (error + int) \<times> rng" where
  "randint low high g =
     (if low \<ge> high then (Inl ValueError, g)
      else (Inr (low + int (shd g mod nat (high - low))), stl g))"

definition choice :: "int list \<Rightarrow> rng \<Rightarrow> (error + int) \<times> rng" where
  "choice xs g =
     (if xs = [] then (Inl ValueError, g)
      else (Inr (xs ! (shd g mod length xs)), stl g))"

definition uniform :: "real \<Rightarrow> real \<Rightarrow> rng \<Rightarrow> real \<times> rng" where
  "uniform low high g = (let (u, g') = rand g in (low + (high - low) * u, g'))"

text \<open>
  A numpy array is a nested list: \<open>Scalar\<close> is a 0-d array, \<open>Arr\<close> adds one axis. The shape
  is read along the first element of every axis, so an axis of length 0 ends the shape;
  \<open>has_shape\<close> says that an array is rectangular with a given shape.
\<close>

datatype 'a ndarray = Scalar 'a | Arr "'a ndarray list"

fun shape :: "'a ndarray \<Rightarrow> nat list" where
  "shape (Scalar x) = []"
| "shape (Arr xs) = length xs # (case xs of [] \<Rightarrow> [] | x # _ \<Rightarrow> shape x)"

definition ndim :: "'a ndarray \<Rightarrow> nat" where
  "ndim a = length (shape a)"

fun has_shape :: "nat list \<Rightarrow> 'a ndarray \<Rightarrow> bool" where
  "has_shape [] (Scalar x) = True"
| "has_shape (n # ns) (Arr xs) = (length xs = n \<and> list_all (has_shape ns) xs)"
| "has_shape [] (Arr xs) = False"
| "has_shape (n # ns) (Scalar x) = False"

text \<open>\<open>image.shape[i]\<close>: a tuple index out of range raises IndexError.\<close>

definition shape_at :: "'a ndarray \<Rightarrow> nat \<Rightarrow> error + nat" where
  "shape_at a i = (if i < length (shape a) then Inr (shape a ! i) else Inl IndexError)"

text \<open>\<open>a[i, j, ...]\<close> with non-negative indices: the sub-array at an index tuple.\<close>

primrec getitem :: "nat list \<Rightarrow> 'a ndarray \<Rightarrow> error + 'a ndarray" where
  "getitem [] a = Inr a"
| "getitem (i # idx) a =
     (case a of
        Scalar x \<Rightarrow> Inl IndexError
      | Arr xs \<Rightarrow> if i < length xs then getitem idx (xs ! i) else Inl IndexError)"

text \<open>
  Python's slice \<open>xs[lo:hi]\<close>: a negative bound counts from the end, and both bounds are
  clipped to the length, so a slice never raises.
\<close>

definition slice_bound :: "nat \<Rightarrow> int \<Rightarrow> nat" where
  "slice_bound n i = (if i < 0 then nat (max 0 (i + int n)) else min n (nat i))"

definition py_slice :: "int \<Rightarrow> int \<Rightarrow> 'b list \<Rightarrow> 'b list" where
  "py_slice lo hi xs =
     (let a = slice_bound (length xs) lo; b = slice_bound (length xs) hi
      in take (b - a) (drop a xs))"

text \<open>
  \<open>a[s0, s1, ...]\<close> with one slice per leading axis; more slices than axes raises
  IndexError.
\<close>

fun slice_axes :: "(int \<times> int) list \<Rightarrow> 'a ndarray \<Rightarrow> 'a ndarray" where
  "slice_axes [] a = a"
| "slice_axes (s # ss) (Scalar x) = Scalar x"
| "slice_axes (s # ss) (Arr xs) = Arr (map (slice_axes ss) (py_slice (fst s) (snd s) xs))"

definition slice_nd :: "(int \<times> int) list \<Rightarrow> 'a ndarray \<Rightarrow> error + 'a ndarray" where
  "slice_nd ss a = (if length ss > ndim a then Inl IndexError else Inr (slice_axes ss a))"

text \<open>Python's \<open>xs[i]\<close> on a list: a negative index counts from the end.\<close>

definition list_getitem :: "'b list \<Rightarrow> int \<Rightarrow> error + 'b" where
  "list_getitem xs i =
     (if 0 \<le> i \<and> i < int (length xs) then Inr (xs ! nat i)
      else if - int (length xs) \<le> i \<and> i < 0 then Inr (xs ! nat (i + int (length xs)))
      else Inl IndexError)"


section \<open>Paired transforms (transforms.py)\<close>

datatype ImageMaskTransformMode = Image | Mask

text \<open>
  The value bound to \<open>mask\<close>: \<open>None\<close>, a dense array, or another Python object: the
  integer that the dataset passes when it has no mask list, or a numpy scalar.
\<close>

datatype 'a pyval = PyNone | PyInt int | NpScalar 'a | NdArray "'a ndarray"

definition is_ndarray :: "'a pyval \<Rightarrow> bool" where
  "is_ndarray v = (case v of NdArray a \<Rightarrow> True | _ \<Rightarrow> False)"

text \<open>
  The fields set by \<open>BaseImageMaskTransformer.__init__\<close>. A value of this record also
  stands for the keyword arguments a subclass constructor passes on, resolved against the
  defaults.
\<close>

record BaseImageMaskTransformer =
  p :: real
  apply_always :: bool
  apply_image :: bool
  apply_mask :: bool

definition default_kwargs :: BaseImageMaskTransformer where
  "default_kwargs = \<lparr>p = 0.5, apply_always = False, apply_image = True, apply_mask = True\<rparr>"

text \<open>
  OpenCV and imgaug are outside the repository: their entry points are parameters of the
  model. An imgaug augmenter is described by its constructor arguments; the \<open>Affine\<close>
  augmenter holds deterministic parameters that the transforms overwrite.
\<close>

datatype interpolation = INTER_LINEAR | INTER_NEAREST

datatype border_type = BORDER_REFLECT

record affine =
  affine_scale :: real
  affine_rotate :: real
  affine_mode :: string

datatype augmenter =
    IaaAdd real real real
  | IaaContrastNormalization real real real
  | IaaAffine affine

record 'a externals =
  cv2_resize :: "'a ndarray \<Rightarrow> int \<times> int \<Rightarrow> interpolation \<Rightarrow> error + 'a ndarray"
  cv2_copyMakeBorder ::
    "'a ndarray \<Rightarrow> int \<Rightarrow> int \<Rightarrow> int \<Rightarrow> int \<Rightarrow> border_type \<Rightarrow> error + 'a ndarray"
  augment_image :: "augmenter \<Rightarrow> 'a ndarray \<Rightarrow> rng \<Rightarrow> (error + 'a ndarray) \<times> rng"

text \<open>
  A transform instance: the class, the base fields and the fields of the subclass.
  \<open>SamplePatch\<close> carries \<open>patch_size\<close>, \<open>_patch_coordinate_h\<close> and \<open>_patch_coordinate_w\<close>;
  \<open>Rotate\<close> and \<open>Scale\<close> carry \<open>from_val\<close>, \<open>to_val\<close>, \<open>mode\<close> and the parameters of
  \<open>_augmentor\<close>; \<open>Rotate90n\<close> carries \<open>_angles\<close> and \<open>_augmentor\<close>; \<open>MakeBorder\<close> carries the
  \<open>border_size\<close> tuple.
\<close>

datatype transformer =
    RandomVerticalFlip BaseImageMaskTransformer
  | RandomHorizontalFlip BaseImageMaskTransformer
  | RandomTranspose BaseImageMaskTransformer
  | Resize BaseImageMaskTransformer int
  | CopyNumpy BaseImageMaskTransformer
  | SamplePatch BaseImageMaskTransformer int int int
  | Add BaseImageMaskTransformer real real real
  | ContrastNormalization BaseImageMaskTransformer real real real
  | Rotate BaseImageMaskTransformer int int string affine
  | Rotate90n BaseImageMaskTransformer "int list" affine
  | Scale BaseImageMaskTransformer real real string affine
  | MakeBorder BaseImageMaskTransformer "int list"
  | Squarify BaseImageMaskTransformer

fun base_of :: "transformer \<Rightarrow> BaseImageMaskTransformer" where
  "base_of (RandomVerticalFlip b) = b"
| "base_of (RandomHorizontalFlip b) = b"
| "base_of (RandomTranspose b) = b"
| "base_of (Resize b sz) = b"
| "base_of (CopyNumpy b) = b"
| "base_of (SamplePatch b patch_size ch cw) = b"
| "base_of (Add b from_val to_val per_channel) = b"
| "base_of (ContrastNormalization b from_val to_val per_channel) = b"
| "base_of (Rotate b from_val to_val md aug) = b"
| "base_of (Rotate90n b angles aug) = b"
| "base_of (Scale b from_val to_val md aug) = b"
| "base_of (MakeBorder b border_size) = b"
| "base_of (Squarify b) = b"

subsection \<open>Constructors\<close>

definition Resize_init :: "int \<Rightarrow> BaseImageMaskTransformer \<Rightarrow> transformer" where
  "Resize_init sz kwargs = Resize (kwargs\<lparr>apply_always := True\<rparr>) sz"

definition CopyNumpy_init :: "BaseImageMaskTransformer \<Rightarrow> transformer" where
  "CopyNumpy_init kwargs = CopyNumpy (kwargs\<lparr>apply_always := True\<rparr>)"

definition SamplePatch_init :: "int \<Rightarrow> BaseImageMaskTransformer \<Rightarrow> transformer" where
  "SamplePatch_init patch_size kwargs =
     SamplePatch (kwargs\<lparr>apply_always := True\<rparr>) patch_size 0 0"

definition Add_init :: "real \<Rightarrow> real \<Rightarrow> real \<Rightarrow> BaseImageMaskTransformer \<Rightarrow> transformer" where
  "Add_init from_val to_val per_channel kwargs =
     Add (kwargs\<lparr>apply_mask := False\<rparr>) from_val to_val per_channel"

definition ContrastNormalization_init ::
  "real \<Rightarrow> real \<Rightarrow> real \<Rightarrow> BaseImageMaskTransformer \<Rightarrow> transformer" where
  "ContrastNormalization_init from_val to_val per_channel kwargs =
     ContrastNormalization (kwargs\<lparr>apply_mask := False\<rparr>) from_val to_val per_channel"

definition Rotate_init :: "int \<Rightarrow> int \<Rightarrow> string \<Rightarrow> BaseImageMaskTransformer \<Rightarrow> transformer" where
  "Rotate_init from_val to_val md kwargs =
     Rotate kwargs from_val to_val md
       \<lparr>affine_scale = 1, affine_rotate = 0, affine_mode = md\<rparr>"

definition Rotate90n_init :: "BaseImageMaskTransformer \<Rightarrow> transformer" where
  "Rotate90n_init kwargs =
     Rotate90n kwargs [0, 90, 180, 270]
       \<lparr>affine_scale = 1, affine_rotate = 0, affine_mode = ''constant''\<rparr>"

definition Scale_init :: "real \<Rightarrow> real \<Rightarrow> string \<Rightarrow> BaseImageMaskTransformer \<Rightarrow> transformer" where
  "Scale_init from_val to_val md kwargs =
     Scale kwargs from_val to_val md
       \<lparr>affine_scale = 1, affine_rotate = 0, affine_mode = md\<rparr>"

text \<open>The \<open>border_size\<close> argument of \<open>MakeBorder\<close>: a tuple, or anything else (a number).\<close>

datatype border_arg = BorderInt int | BorderTuple "int list"

definition MakeBorder_init :: "border_arg \<Rightarrow> BaseImageMaskTransformer \<Rightarrow> transformer" where
  "MakeBorder_init border_size kwargs =
     MakeBorder (kwargs\<lparr>apply_always := True, apply_mask := False\<rparr>)
       (case border_size of
          BorderTuple t \<Rightarrow> t
        | BorderInt s \<Rightarrow> [s, s, s, s])"

definition Squarify_init :: "BaseImageMaskTransformer \<Rightarrow> transformer" where
  "Squarify_init kwargs = Squarify (kwargs\<lparr>apply_always := True\<rparr>)"


subsection \<open>numpy operations used by the transform bodies\<close>

text \<open>\<open>np.flipud\<close> needs at least one axis and reverses axis 0.\<close>

fun np_flipud :: "'a ndarray \<Rightarrow> error + 'a ndarray" where
  "np_flipud (Scalar x) = Inl ValueError"
| "np_flipud (Arr xs) = Inr (Arr (rev xs))"

text \<open>\<open>np.fliplr\<close> needs at least two axes and reverses axis 1.\<close>

fun reverse_axis :: "'a ndarray \<Rightarrow> 'a ndarray" where
  "reverse_axis (Scalar x) = Scalar x"
| "reverse_axis (Arr ys) = Arr (rev ys)"

definition np_fliplr :: "'a ndarray \<Rightarrow> error + 'a ndarray" where
  "np_fliplr a =
     (if ndim a < 2 then Inl ValueError
      else case a of
             Scalar x \<Rightarrow> Inl ValueError
           | Arr xs \<Rightarrow> Inr (Arr (map reverse_axis xs)))"

text \<open>
  \<open>build shp f\<close> is the array of shape \<open>shp\<close> whose entry at an index tuple is \<open>f\<close> of
  that tuple; \<open>item idx a\<close> reads an entry of \<open>a\<close> at an index tuple that lies inside the
  shape of \<open>a\<close>.
\<close>

primrec build :: "nat list \<Rightarrow> (nat list \<Rightarrow> 'a ndarray) \<Rightarrow> 'a ndarray" where
  "build [] f = f []"
| "build (n # ns) f = Arr (map (\<lambda>i. build ns (\<lambda>idx. f (i # idx))) [0..<n])"

primrec item :: "nat list \<Rightarrow> 'a ndarray \<Rightarrow> 'a ndarray" where
  "item [] a = a"
| "item (i # idx) a = (case a of Scalar x \<Rightarrow> Scalar x | Arr xs \<Rightarrow> item idx (xs ! i))"

definition axis_pos :: "nat list \<Rightarrow> nat \<Rightarrow> nat" where
  "axis_pos axes d = length (takeWhile (\<lambda>x. x \<noteq> d) axes)"

text \<open>
  \<open>np.transpose(a, axes)\<close>: \<open>axes\<close> must be a permutation of the axes of \<open>a\<close> (ValueError
  otherwise); axis \<open>k\<close> of the result is axis \<open>axes[k]\<close> of \<open>a\<close>.
\<close>

definition np_transpose :: "'a ndarray \<Rightarrow> nat list \<Rightarrow> error + 'a ndarray" where
  "np_transpose a axes =
     (if length axes = ndim a \<and> list_all (\<lambda>d. d \<in> set axes) [0..<ndim a]
      then Inr (build (map (\<lambda>k. shape a ! k) axes)
                  (\<lambda>idx. item (map (\<lambda>d. idx ! axis_pos axes d) [0..<ndim a]) a))
      else Inl ValueError)"

subsection \<open>Transform bodies\<close>

definition RandomVerticalFlip_transform :: "'a ndarray \<Rightarrow> error + 'a ndarray" where
  "RandomVerticalFlip_transform img = np_flipud img"

definition RandomHorizontalFlip_transform :: "'a ndarray \<Rightarrow> error + 'a ndarray" where
  "RandomHorizontalFlip_transform img = np_fliplr img"

definition RandomTranspose_transform :: "'a ndarray \<Rightarrow> error + 'a ndarray" where
  "RandomTranspose_transform img =
     (let transpose_axis = [1, 0] @ (if ndim img = 3 then [2] else [])
      in np_transpose img transpose_axis)"

definition Resize_transform ::
  "'a externals \<Rightarrow> int \<Rightarrow> 'a ndarray \<Rightarrow> ImageMaskTransformMode \<Rightarrow> error + 'a ndarray" where
  "Resize_transform ext sz img md =
     (let interpolation = (if md = Image then INTER_LINEAR else INTER_NEAREST)
      in cv2_resize ext img (sz, sz) interpolation)"

text \<open>
  \<open>SamplePatch.transform\<close>. On the image half the two offsets are drawn one after the
  other; a ValueError of \<open>randint\<close> is printed and raised again, and an offset already
  assigned stays assigned. Both halves are then cut at the stored offsets.
\<close>

definition SamplePatch_crop :: "int \<Rightarrow> int \<Rightarrow> int \<Rightarrow> 'a ndarray \<Rightarrow> error + 'a ndarray" where
  "SamplePatch_crop patch_size ch cw img =
     (let c_h = (ch, ch + patch_size); c_w = (cw, cw + patch_size)
      in slice_nd [c_h, c_w] img)"

definition SamplePatch_transform ::
  "BaseImageMaskTransformer \<Rightarrow> int \<Rightarrow> int \<Rightarrow> int \<Rightarrow> 'a ndarray \<Rightarrow> ImageMaskTransformMode \<Rightarrow> rng
     \<Rightarrow> (error + 'a ndarray) \<times> transformer \<times> rng" where
  "SamplePatch_transform b patch_size ch cw img md g =
     (if md = Image then
        (case shape_at img 0 of
           Inl e \<Rightarrow> (Inl e, SamplePatch b patch_size ch cw, g)
         | Inr image_height \<Rightarrow>
        (case shape_at img 1 of
           Inl e \<Rightarrow> (Inl e, SamplePatch b patch_size ch cw, g)
         | Inr image_width \<Rightarrow>
        (let max_height = int image_height - patch_size;
             max_width = int image_width - patch_size
         in case randint 0 max_height g of
              (Inl e, g1) \<Rightarrow> (Inl e, SamplePatch b patch_size ch cw, g1)
            | (Inr ch', g1) \<Rightarrow>
           (case randint 0 max_width g1 of
              (Inl e, g2) \<Rightarrow> (Inl e, SamplePatch b patch_size ch' cw, g2)
            | (Inr cw', g2) \<Rightarrow>
                (SamplePatch_crop patch_size ch' cw' img,
                 SamplePatch b patch_size ch' cw', g2)))))
      else (SamplePatch_crop patch_size ch cw img, SamplePatch b patch_size ch cw, g))"

text \<open>
  \<open>Rotate\<close>, \<open>Rotate90n\<close> and \<open>Scale\<close>: the image half draws the parameter and stores it
  in the augmenter; both halves then run the augmenter as it stands.
\<close>

definition Rotate_transform ::
  "'a externals \<Rightarrow> BaseImageMaskTransformer \<Rightarrow> int \<Rightarrow> int \<Rightarrow> string \<Rightarrow> affine \<Rightarrow> 'a ndarray
     \<Rightarrow> ImageMaskTransformMode \<Rightarrow> rng \<Rightarrow> (error + 'a ndarray) \<times> transformer \<times> rng" where
  "Rotate_transform ext b from_val to_val m aug img md g =
     (if md = Image then
        (case randint from_val to_val g of
           (Inl e, g1) \<Rightarrow> (Inl e, Rotate b from_val to_val m aug, g1)
         | (Inr angle, g1) \<Rightarrow>
             (let aug' = aug\<lparr>affine_rotate := of_int angle\<rparr>;
                  (res, g2) = augment_image ext (IaaAffine aug') img g1
              in (res, Rotate b from_val to_val m aug', g2)))
      else (let (res, g1) = augment_image ext (IaaAffine aug) img g
            in (res, Rotate b from_val to_val m aug, g1)))"

definition Rotate90n_transform ::
  "'a externals \<Rightarrow> BaseImageMaskTransformer \<Rightarrow> int list \<Rightarrow> affine \<Rightarrow> 'a ndarray
     \<Rightarrow> ImageMaskTransformMode \<Rightarrow> rng \<Rightarrow> (error + 'a ndarray) \<times> transformer \<times> rng" where
  "Rotate90n_transform ext b angles aug img md g =
     (if md = Image then
        (case choice angles g of
           (Inl e, g1) \<Rightarrow> (Inl e, Rotate90n b angles aug, g1)
         | (Inr angle, g1) \<Rightarrow>
             (let aug' = aug\<lparr>affine_rotate := of_int angle\<rparr>;
                  (res, g2) = augment_image ext (IaaAffine aug') img g1
              in (res, Rotate90n b angles aug', g2)))
      else (let (res, g1) = augment_image ext (IaaAffine aug) img g
            in (res, Rotate90n b angles aug, g1)))"

definition Scale_transform ::
  "'a externals \<Rightarrow> BaseImageMaskTransformer \<Rightarrow> real \<Rightarrow> real \<Rightarrow> string \<Rightarrow> affine \<Rightarrow> 'a ndarray
     \<Rightarrow> ImageMaskTransformMode \<Rightarrow> rng \<Rightarrow> (error + 'a ndarray) \<times> transformer \<times> rng" where
  "Scale_transform ext b from_val to_val m aug img md g =
     (if md = Image then
        (let (scale, g1) = uniform from_val to_val g;
             aug' = aug\<lparr>affine_scale := scale\<rparr>;
             (res, g2) = augment_image ext (IaaAffine aug') img g1
         in (res, Scale b from_val to_val m aug', g2))
      else (let (res, g1) = augment_image ext (IaaAffine aug) img g
            in (res, Scale b from_val to_val m aug, g1)))"

text \<open>\<open>MakeBorder.transform\<close>: the four tuple reads raise IndexError on a short tuple.\<close>

definition MakeBorder_transform ::
  "'a externals \<Rightarrow> int list \<Rightarrow> 'a ndarray \<Rightarrow> error + 'a ndarray" where
  "MakeBorder_transform ext border_size img =
     (case list_getitem border_size 0 of Inl e \<Rightarrow> Inl e | Inr b_top \<Rightarrow>
     (case list_getitem border_size 1 of Inl e \<Rightarrow> Inl e | Inr b_bottom \<Rightarrow>
     (case list_getitem border_size 2 of Inl e \<Rightarrow> Inl e | Inr b_left \<Rightarrow>
     (case list_getitem border_size 3 of Inl e \<Rightarrow> Inl e | Inr b_right \<Rightarrow>
        cv2_copyMakeBorder ext img b_top b_bottom b_left b_right BORDER_REFLECT))))"

text \<open>
  \<open>Squarify.transform\<close>: one crop pair per spatial side, \<open>(0, 0)\<close> for every further axis,
  then one slice \<open>a : shape[i] - b\<close> per axis. The list of slices indexes the array as
  the tuple of these slices does (numpy reads a list of slices so up to version 1.22).
\<close>

definition Squarify_side :: "int \<Rightarrow> int \<Rightarrow> int \<times> int" where
  "Squarify_side target_size image_side_size =
     (if image_side_size \<le> target_size then (0, 0)
      else let crop_total = image_side_size - target_size;
               crop_before = crop_total div 2;
               crop_after = image_side_size - target_size - crop_before
           in (crop_before, crop_after))"

definition Squarify_crops :: "'a ndarray \<Rightarrow> error + (int \<times> int) list" where
  "Squarify_crops img =
     (case shape_at img 0 of Inl e \<Rightarrow> Inl e | Inr h \<Rightarrow>
     (case shape_at img 1 of Inl e \<Rightarrow> Inl e | Inr w \<Rightarrow>
        (let image_size = [int h, int w];
             target_size = min (int h) (int w)
         in Inr (map (Squarify_side target_size) image_size
                 @ replicate (ndim img - 2) (0, 0)))))"

definition Squarify_slices :: "'a ndarray \<Rightarrow> (int \<times> int) list \<Rightarrow> (int \<times> int) list" where
  "Squarify_slices img crops =
     map (\<lambda>(i, (a, b)). (a, int (shape img ! i) - b)) (enumerate 0 crops)"

definition Squarify_transform :: "'a ndarray \<Rightarrow> error + 'a ndarray" where
  "Squarify_transform img =
     (case Squarify_crops img of
        Inl e \<Rightarrow> Inl e
      | Inr crops \<Rightarrow> slice_nd (Squarify_slices img crops) img)"


subsection \<open>Dispatch of \<open>self.transform\<close> and the shared \<open>__call__\<close>\<close>

text \<open>
  A call of \<open>transform\<close> returns the result (or the exception), the instance as the call
  leaves it, and the rest of the random stream.
\<close>

fun transform ::
  "'a externals \<Rightarrow> transformer \<Rightarrow> 'a ndarray \<Rightarrow> ImageMaskTransformMode \<Rightarrow> rng
     \<Rightarrow> (error + 'a ndarray) \<times> transformer \<times> rng" where
  "transform ext (RandomVerticalFlip b) img md g =
     (RandomVerticalFlip_transform img, RandomVerticalFlip b, g)"
| "transform ext (RandomHorizontalFlip b) img md g =
     (RandomHorizontalFlip_transform img, RandomHorizontalFlip b, g)"
| "transform ext (RandomTranspose b) img md g =
     (RandomTranspose_transform img, RandomTranspose b, g)"
| "transform ext (Resize b sz) img md g = (Resize_transform ext sz img md, Resize b sz, g)"
| "transform ext (CopyNumpy b) img md g = (Inr img, CopyNumpy b, g)"
| "transform ext (SamplePatch b patch_size ch cw) img md g =
     SamplePatch_transform b patch_size ch cw img md g"
| "transform ext (Add b from_val to_val per_channel) img md g =
     (let (res, g1) = augment_image ext (IaaAdd from_val to_val per_channel) img g
      in (res, Add b from_val to_val per_channel, g1))"
| "transform ext (ContrastNormalization b from_val to_val per_channel) img md g =
     (let (res, g1) =
            augment_image ext (IaaContrastNormalization from_val to_val per_channel) img g
      in (res, ContrastNormalization b from_val to_val per_channel, g1))"
| "transform ext (Rotate b from_val to_val m aug) img md g =
     Rotate_transform ext b from_val to_val m aug img md g"
| "transform ext (Rotate90n b angles aug) img md g =
     Rotate90n_transform ext b angles aug img md g"
| "transform ext (Scale b from_val to_val m aug) img md g =
     Scale_transform ext b from_val to_val m aug img md g"
| "transform ext (MakeBorder b border_size) img md g =
     (MakeBorder_transform ext border_size img, MakeBorder b border_size, g)"
| "transform ext (Squarify b) img md g = (Squarify_transform img, Squarify b, g)"

text \<open>What \<open>__call__\<close> returns: the image alone when \<open>mask is None\<close>, else the pair.\<close>

datatype 'a call_result = ImageOnly "'a ndarray" | ImageAndMask "'a ndarray" "'a pyval"

definition call_return :: "'a ndarray \<Rightarrow> 'a pyval \<Rightarrow> 'a call_result" where
  "call_return img msk = (if msk = PyNone then ImageOnly img else ImageAndMask img msk)"

text \<open>The test of line 31, on the value \<open>r\<close> that \<open>np.random.rand()\<close> returned.\<close>

definition gate :: "BaseImageMaskTransformer \<Rightarrow> real \<Rightarrow> bool" where
  "gate b r = (r \<ge> p b \<or> apply_always b)"

text \<open>Lines 33 to 37: the image half, then the mask half when the mask is an array.\<close>

definition apply_halves ::
  "'a externals \<Rightarrow> transformer \<Rightarrow> 'a ndarray \<Rightarrow> 'a pyval \<Rightarrow> rng
     \<Rightarrow> (error + 'a ndarray \<times> 'a pyval) \<times> transformer \<times> rng" where
  "apply_halves ext t img msk g =
     (case (if apply_image (base_of t) then transform ext t img Image g else (Inr img, t, g)) of
        (Inl e, t1, g1) \<Rightarrow> (Inl e, t1, g1)
      | (Inr img', t1, g1) \<Rightarrow>
          (case msk of
             NdArray m \<Rightarrow>
               if apply_mask (base_of t1) then
                 (case transform ext t1 m Mask g1 of
                    (Inl e, t2, g2) \<Rightarrow> (Inl e, t2, g2)
                  | (Inr m', t2, g2) \<Rightarrow> (Inr (img', NdArray m'), t2, g2))
               else (Inr (img', msk), t1, g1)
           | _ \<Rightarrow> (Inr (img', msk), t1, g1)))"

text \<open>Lines 39 to 42, after the gated block: the value returned from what the block left.\<close>

definition call_result_of :: "error + 'a ndarray \<times> 'a pyval \<Rightarrow> error + 'a call_result" where
  "call_result_of res =
     (case res of Inl e \<Rightarrow> Inl e | Inr (img, msk) \<Rightarrow> Inr (call_return img msk))"

definition BaseImageMaskTransformer_call ::
  "'a externals \<Rightarrow> transformer \<Rightarrow> 'a ndarray \<Rightarrow> 'a pyval \<Rightarrow> rng
     \<Rightarrow> (error + 'a call_result) \<times> transformer \<times> rng" where
  "BaseImageMaskTransformer_call ext t img msk g =
     (let (r, g0) = rand g;
          (res, t', g') = (if gate (base_of t) r then apply_halves ext t img msk g0
                           else (Inr (img, msk), t, g0))
      in (call_result_of res, t', g'))"

subsection \<open>ImageMaskTransformsCompose\<close>

text \<open>
  \<open>image, mask = transform_step(image, mask)\<close> unpacks the returned value. A pair unpacks
  into its parts. A lone array (returned when the mask is \<open>None\<close>) is iterated along its
  first axis: a 0-d array raises TypeError, a first axis of length other than two raises
  ValueError, and a first axis of length two yields its two entries.
\<close>

definition as_pyval :: "'a ndarray \<Rightarrow> 'a pyval" where
  "as_pyval a = (case a of Scalar x \<Rightarrow> NpScalar x | Arr xs \<Rightarrow> NdArray a)"

fun unpack_pair :: "'a call_result \<Rightarrow> error + 'a ndarray \<times> 'a pyval" where
  "unpack_pair (ImageAndMask img msk) = Inr (img, msk)"
| "unpack_pair (ImageOnly (Scalar x)) = Inl TypeError"
| "unpack_pair (ImageOnly (Arr [a, b])) = Inr (a, as_pyval b)"
| "unpack_pair (ImageOnly (Arr xs)) = Inl ValueError"

fun ImageMaskTransformsCompose_call ::
  "'a externals \<Rightarrow> transformer list \<Rightarrow> 'a ndarray \<Rightarrow> 'a pyval \<Rightarrow> rng
     \<Rightarrow> (error + 'a ndarray \<times> 'a pyval) \<times> transformer list \<times> rng" where
  "ImageMaskTransformsCompose_call ext [] img msk g = (Inr (img, msk), [], g)"
| "ImageMaskTransformsCompose_call ext (t # ts) img msk g =
     (case BaseImageMaskTransformer_call ext t img msk g of
        (Inl e, t', g') \<Rightarrow> (Inl e, t' # ts, g')
      | (Inr res, t', g') \<Rightarrow>
          (case unpack_pair res of
             Inl e \<Rightarrow> (Inl e, t' # ts, g')
           | Inr (img', msk') \<Rightarrow>
               (case ImageMaskTransformsCompose_call ext ts img' msk' g' of
                  (r, ts', g'') \<Rightarrow> (r, t' # ts', g''))))"


section \<open>Post-transforms: Normalize and ToTensor\<close>

text \<open>
  The arithmetic of the element type (float32 in the program) is a parameter: the two
  ufuncs and the constant 255. Arrays hold float32 values; the conversion of an integer
  array by \<open>dtype=np.float32\<close> is not modelled.
\<close>

record 'a arith =
  np_divide :: "'a \<Rightarrow> 'a \<Rightarrow> 'a"
  np_subtract :: "'a \<Rightarrow> 'a \<Rightarrow> 'a"
  c255 :: 'a

fun map_elems :: "('a \<Rightarrow> 'b) \<Rightarrow> 'a ndarray \<Rightarrow> 'b ndarray" where
  "map_elems f (Scalar x) = Scalar (f x)"
| "map_elems f (Arr xs) = Arr (map (map_elems f) xs)"

text \<open>
  \<open>map_last f k a\<close> applies \<open>f i\<close> to every element, where \<open>i\<close> is the position of the
  element on its innermost axis (\<open>k\<close> for a 0-d array).
\<close>

function map_last :: "(nat \<Rightarrow> 'a \<Rightarrow> 'b) \<Rightarrow> nat \<Rightarrow> 'a ndarray \<Rightarrow> 'b ndarray" where
  "map_last f k (Scalar x) = Scalar (f k x)"
| "map_last f k (Arr xs) = Arr (map (\<lambda>i. map_last f i (xs ! i)) [0..<length xs])"
  by pat_completeness auto
termination
proof (relation "measure (\<lambda>(f, k, a). size a)")
  show "wf (measure (\<lambda>(f :: nat \<Rightarrow> 'a \<Rightarrow> 'b, k :: nat, a :: 'a ndarray). size a))"
    by simp
next
  fix f :: "nat \<Rightarrow> 'a \<Rightarrow> 'b" and k :: nat and xs :: "'a ndarray list" and i :: nat
  assume "i \<in> set [0..<length xs]"
  then have "xs ! i \<in> set xs"
    by simp
  then have "size (xs ! i) \<le> size_list size xs"
    by (rule size_list_estimation') simp
  then show "((f, i, xs ! i), (f, k, Arr xs)) \<in> measure (\<lambda>(f, k, a). size a)"
    by simp
qed

text \<open>
  \<open>ufunc(data, v, out=data)\<close> with \<open>v\<close> of shape \<open>(1, 1, n)\<close>: the broadcast result must
  have the shape of \<open>data\<close>, so \<open>data\<close> needs at least three axes and \<open>n\<close> is one or the
  extent of the last axis; otherwise numpy raises ValueError.
\<close>

definition ufunc_out :: "('a \<Rightarrow> 'a \<Rightarrow> 'a) \<Rightarrow> 'a ndarray \<Rightarrow> 'a list \<Rightarrow> error + 'a ndarray" where
  "ufunc_out f data v =
     (if 3 \<le> ndim data \<and> (length v = 1 \<or> length v = last (shape data))
      then Inr (map_last (\<lambda>k x. f x (if length v = 1 then v ! 0 else v ! k)) 0 data)
      else Inl ValueError)"

text \<open>\<open>mean\<close> and \<open>std\<close> are kept as the flat vectors behind their \<open>(1, 1, -1)\<close> shape.\<close>

record 'a Normalize =
  nm_divide :: bool
  nm_mean :: "'a list"
  nm_std :: "'a list"

definition Normalize_init :: "'a list \<Rightarrow> 'a list \<Rightarrow> bool \<Rightarrow> 'a Normalize" where
  "Normalize_init mean std dv = \<lparr>nm_divide = dv, nm_mean = mean, nm_std = std\<rparr>"

definition Normalize_call :: "'a arith \<Rightarrow> 'a Normalize \<Rightarrow> 'a ndarray \<Rightarrow> error + 'a ndarray" where
  "Normalize_call ar self data =
     (let data1 = (if nm_divide self then map_elems (\<lambda>x. np_divide ar x (c255 ar)) data
                   else data)
      in case ufunc_out (np_subtract ar) data1 (nm_mean self) of
           Inl e \<Rightarrow> Inl e
         | Inr data2 \<Rightarrow> ufunc_out (np_divide ar) data2 (nm_std self))"

record ToTensor =
  tt_divide :: bool
  tt_transpose :: bool
  tt_contiguous :: bool
  tt_to_torch :: bool

definition ToTensor_init :: "bool \<Rightarrow> bool \<Rightarrow> bool \<Rightarrow> bool \<Rightarrow> ToTensor" where
  "ToTensor_init dv tr contiguous to_torch =
     \<lparr>tt_divide = dv, tt_transpose = tr, tt_contiguous = contiguous,
      tt_to_torch = to_torch\<rparr>"

text \<open>\<open>np.ascontiguousarray\<close> keeps the values and gives a 0-d array one axis.\<close>

fun np_ascontiguousarray :: "'a ndarray \<Rightarrow> 'a ndarray" where
  "np_ascontiguousarray (Scalar x) = Arr [Scalar x]"
| "np_ascontiguousarray (Arr xs) = Arr xs"

text \<open>The value returned by \<open>ToTensor\<close>: a numpy array, or a torch tensor of the same values.\<close>

datatype 'a tensor = NumpyArray "'a ndarray" | TorchTensor "'a ndarray"

definition ToTensor_call :: "'a arith \<Rightarrow> ToTensor \<Rightarrow> 'a ndarray \<Rightarrow> error + 'a tensor" where
  "ToTensor_call ar self data =
     (case (if tt_transpose self then np_transpose data [2, 0, 1] else Inr data) of
        Inl e \<Rightarrow> Inl e
      | Inr data1 \<Rightarrow>
          (let data2 = (if tt_contiguous self then np_ascontiguousarray data1 else data1);
               data3 = (if tt_divide self then map_elems (\<lambda>x. np_divide ar x (c255 ar)) data2
                        else data2)
           in Inr (if tt_to_torch self then TorchTensor data3 else NumpyArray data3)))"

section \<open>The dataset (datasets/segmentation.py)\<close>

text \<open>
  The three transform stages are callables with state of their own: a callable takes the
  state \<open>'w\<close> of the objects behind the stages and returns the state it leaves. The image
  loader of \<open>pytorch_helpers.helpers\<close> is a parameter \<open>load_image path grayscale\<close> that
  fails with \<open>LoadError\<close>. \<open>masks = None\<close> makes the mask the integer 0. The field
  \<open>transform\<close> is \<open>ds_transform\<close> here, and \<open>__getitem__\<close> and \<open>__len__\<close> are
  \<open>getitem_dataset\<close> and \<open>len_dataset\<close>.
\<close>

record ('a, 'w) BaseImageSegmentationDataset =
  images :: "string list"
  masks :: "string list option"
  nb_images :: nat
  ds_transform ::
    "('a ndarray \<Rightarrow> 'a pyval \<Rightarrow> 'w \<Rightarrow> (error + 'a ndarray \<times> 'a pyval) \<times> 'w) option"
  image_transform :: "('a ndarray \<Rightarrow> 'w \<Rightarrow> (error + 'a ndarray) \<times> 'w) option"
  mask_transform :: "('a ndarray \<Rightarrow> 'w \<Rightarrow> (error + 'a ndarray) \<times> 'w) option"

definition load_image_and_mask ::
  "(string \<Rightarrow> bool \<Rightarrow> error + 'a ndarray) \<Rightarrow> ('a, 'w) BaseImageSegmentationDataset \<Rightarrow> int
     \<Rightarrow> error + 'a ndarray \<times> 'a pyval" where
  "load_image_and_mask load_image self index =
     (case list_getitem (images self) index of
        Inl e \<Rightarrow> Inl e
      | Inr image_filename \<Rightarrow>
     (case load_image image_filename False of
        Inl e \<Rightarrow> Inl e
      | Inr img \<Rightarrow>
     (case masks self of
        Some ms \<Rightarrow>
          (case list_getitem ms index of
             Inl e \<Rightarrow> Inl e
           | Inr mask_filename \<Rightarrow>
          (case load_image mask_filename True of
             Inl e \<Rightarrow> Inl e
           | Inr m \<Rightarrow> Inr (img, NdArray m)))
      | None \<Rightarrow> Inr (img, PyInt 0))))"

definition apply_transforms ::
  "('a, 'w) BaseImageSegmentationDataset \<Rightarrow> 'a ndarray \<Rightarrow> 'a pyval \<Rightarrow> 'w
     \<Rightarrow> (error + 'a ndarray \<times> 'a pyval) \<times> 'w" where
  "apply_transforms self img msk w =
     (case (case ds_transform self of
              Some tr \<Rightarrow> tr img msk w
            | None \<Rightarrow> (Inr (img, msk), w)) of
        (Inl e, w1) \<Rightarrow> (Inl e, w1)
      | (Inr (img1, msk1), w1) \<Rightarrow>
     (case (case image_transform self of
              Some it \<Rightarrow> it img1 w1
            | None \<Rightarrow> (Inr img1, w1)) of
        (Inl e, w2) \<Rightarrow> (Inl e, w2)
      | (Inr img2, w2) \<Rightarrow>
     (case (mask_transform self, msk1) of
        (Some mt, NdArray m) \<Rightarrow>
          (case mt m w2 of
             (Inl e, w3) \<Rightarrow> (Inl e, w3)
           | (Inr m', w3) \<Rightarrow> (Inr (img2, NdArray m'), w3))
      | _ \<Rightarrow> (Inr (img2, msk1), w2))))"

definition getitem_dataset ::
  "(string \<Rightarrow> bool \<Rightarrow> error + 'a ndarray) \<Rightarrow> ('a, 'w) BaseImageSegmentationDataset \<Rightarrow> int \<Rightarrow> 'w
     \<Rightarrow> (error + 'a ndarray \<times> 'a pyval) \<times> 'w" where
  "getitem_dataset load_image self index w =
     (case load_image_and_mask load_image self index of
        Inl e \<Rightarrow> (Inl e, w)
      | Inr (img, msk) \<Rightarrow> apply_transforms self img msk w)"

definition len_dataset :: "('a, 'w) BaseImageSegmentationDataset \<Rightarrow> nat" where
  "len_dataset self = nb_images self"

section \<open>Both halves with one parameter\<close>

text \<open>
  What a paired call yields when both halves go through the same augmenter
  (\<open>augment_both\<close>) or are cut at the same offsets (\<open>crop_both\<close>): the image half first,
  an exception of either half ending the call.
\<close>

definition augment_both ::
  "'a externals \<Rightarrow> affine \<Rightarrow> 'a ndarray \<Rightarrow> 'a ndarray \<Rightarrow> rng \<Rightarrow> (error + 'a call_result) \<times> rng" where
  "augment_both ext aug img m g =
     (case augment_image ext (IaaAffine aug) img g of
        (Inl e, g1) \<Rightarrow> (Inl e, g1)
      | (Inr img', g1) \<Rightarrow>
          (case augment_image ext (IaaAffine aug) m g1 of
             (Inl e, g2) \<Rightarrow> (Inl e, g2)
           | (Inr m', g2) \<Rightarrow> (Inr (ImageAndMask img' (NdArray m')), g2)))"

definition crop_both ::
  "int \<Rightarrow> int \<Rightarrow> int \<Rightarrow> 'a ndarray \<Rightarrow> 'a ndarray \<Rightarrow> error + 'a call_result" where
  "crop_both patch_size ch cw img m =
     (case SamplePatch_crop patch_size ch cw img of
        Inl e \<Rightarrow> Inl e
      | Inr img' \<Rightarrow>
          (case SamplePatch_crop patch_size ch cw m of
             Inl e \<Rightarrow> Inl e
           | Inr m' \<Rightarrow> Inr (ImageAndMask img' (NdArray m'))))"

section \<open>Concrete inputs and conditions\<close>

text \<open>
  Stand-ins for OpenCV and imgaug on which every call fails; the examples below that use
  them run transforms that never reach the libraries.
\<close>

definition failing_externals :: "int externals" where
  "failing_externals =
     \<lparr>cv2_resize = (\<lambda>a s i. Inl ExternalError),
      cv2_copyMakeBorder = (\<lambda>a t b l r bt. Inl ExternalError),
      augment_image = (\<lambda>aug a g. (Inl ExternalError, g))\<rparr>"

definition image_2x1 :: "int ndarray" where
  "image_2x1 = Arr [Arr [Scalar 1], Arr [Scalar 2]]"

definition mask_2x1 :: "int ndarray" where
  "mask_2x1 = Arr [Arr [Scalar 3], Arr [Scalar 4]]"

definition image_2x2 :: "int ndarray" where
  "image_2x2 = Arr [Arr [Scalar 1, Scalar 2], Arr [Scalar 3, Scalar 4]]"

text \<open>
  A stand-in for \<open>cv2.resize\<close> that picks the nearest source entry for both interpolation
  modes; \<open>dsize\<close> is \<open>(width, height)\<close>.
\<close>

definition nearest_resize ::
  "int ndarray \<Rightarrow> int \<times> int \<Rightarrow> interpolation \<Rightarrow> error + int ndarray" where
  "nearest_resize a dsize interp =
     (let (w, h) = dsize in
      if w \<le> 0 \<or> h \<le> 0 \<or> ndim a < 2 \<or> 0 \<in> set (take 2 (shape a)) then Inl ExternalError
      else Inr (build [nat h, nat w]
                  (\<lambda>idx. item [(idx ! 0 * (shape a ! 0)) div nat h,
                                (idx ! 1 * (shape a ! 1)) div nat w] a)))"

definition nearest_externals :: "int externals" where
  "nearest_externals =
     \<lparr>cv2_resize = nearest_resize,
      cv2_copyMakeBorder = (\<lambda>a t b l r bt. Inl ExternalError),
      augment_image = (\<lambda>aug a g. (Inl ExternalError, g))\<rparr>"

text \<open>
  An \<open>ImageMaskTransformsCompose\<close> object as the paired stage of a dataset: its transform
  instances and the random stream are part of the state behind the stages.
\<close>

definition compose_stage ::
  "'a externals \<Rightarrow> 'a ndarray \<Rightarrow> 'a pyval \<Rightarrow> (transformer list \<times> rng) \<times> 'u
     \<Rightarrow> (error + 'a ndarray \<times> 'a pyval) \<times> ((transformer list \<times> rng) \<times> 'u)" where
  "compose_stage ext img msk w =
     (case w of ((ts, g), u) \<Rightarrow>
        (case ImageMaskTransformsCompose_call ext ts img msk g of
           (r, ts', g') \<Rightarrow> (r, ((ts', g'), u))))"

text \<open>
  A mask-only stage that counts its invocations and raises, a loader that knows one
  file, and a dataset without a mask list.
\<close>

definition spy_transform ::
  "int ndarray \<Rightarrow> (transformer list \<times> rng) \<times> nat
     \<Rightarrow> (error + int ndarray) \<times> ((transformer list \<times> rng) \<times> nat)" where
  "spy_transform a w = (case w of (s, calls) \<Rightarrow> (Inl TypeError, (s, Suc calls)))"

definition one_file_loader :: "string \<Rightarrow> bool \<Rightarrow> error + int ndarray" where
  "one_file_loader path grayscale = (if path = ''a.png'' then Inr image_2x1 else Inl LoadError)"

definition maskless_dataset ::
  "(int, (transformer list \<times> rng) \<times> nat) BaseImageSegmentationDataset" where
  "maskless_dataset =
     \<lparr>images = [''a.png''], masks = None, nb_images = 1,
      ds_transform = Some (compose_stage failing_externals),
      image_transform = None,
      mask_transform = Some spy_transform\<rparr>"

text \<open>The index range \<open>[0, length)\<close>, with the length that \<open>__len__\<close> reports.\<close>

definition in_range :: "('a, 'w) BaseImageSegmentationDataset \<Rightarrow> int \<Rightarrow> bool" where
  "in_range self index = (0 \<le> index \<and> index < int (len_dataset self))"

text \<open>
  A stand-in for imgaug whose affine augmenter multiplies every entry by the scale and
  adds the rotation angle, so that the parameters used show in the result.
\<close>

definition shift_externals :: "int externals" where
  "shift_externals =
     \<lparr>cv2_resize = (\<lambda>a s i. Inl ExternalError),
      cv2_copyMakeBorder = (\<lambda>a t b l r bt. Inl ExternalError),
      augment_image = (\<lambda>aug a g.
         case aug of
           IaaAffine af \<Rightarrow>
             (Inr (map_elems (\<lambda>x. x * \<lfloor>affine_scale af\<rfloor> + \<lfloor>affine_rotate af\<rfloor>) a), g)
         | _ \<Rightarrow> (Inl ExternalError, g))\<rparr>"

definition image_3x3 :: "int ndarray" where
  "image_3x3 = Arr [Arr [Scalar 1, Scalar 2, Scalar 3], Arr [Scalar 4, Scalar 5, Scalar 6],
                    Arr [Scalar 7, Scalar 8, Scalar 9]]"

definition mask_3x3 :: "int ndarray" where
  "mask_3x3 = Arr [Arr [Scalar 10, Scalar 20, Scalar 30], Arr [Scalar 40, Scalar 50, Scalar 60],
                   Arr [Scalar 70, Scalar 80, Scalar 90]]"


text \<open>The condition "\<open>patch_size\<close> exceeds a spatial dimension" for an image of \<open>h\<close> by \<open>w\<close>.\<close>

definition patch_exceeds :: "int \<Rightarrow> nat \<Rightarrow> nat \<Rightarrow> bool" where
  "patch_exceeds patch_size h w = (patch_size > int h \<or> patch_size > int w)"

text \<open>An array of shape \<open>(100, 60, 3)\<close> whose entry at \<open>(i, j, k)\<close> is \<open>10000 i + 100 j + k\<close>.\<close>

definition image_100x60x3 :: "int ndarray" where
  "image_100x60x3 =
     build [100, 60, 3] (\<lambda>idx. Scalar (int (idx ! 0 * 10000 + idx ! 1 * 100 + idx ! 2)))"

text \<open>Exact arithmetic on the reals, and an array of shape \<open>(1, 2, 3)\<close>.\<close>

definition real_arith :: "real arith" where
  "real_arith = \<lparr>np_divide = (\<lambda>x y. x / y), np_subtract = (\<lambda>x y. x - y), c255 = 255\<rparr>"

definition pixels_1x2x3 :: "real ndarray" where
  "pixels_1x2x3 = Arr [Arr [Arr [Scalar 255, Scalar 0, Scalar 51],
                            Arr [Scalar 102, Scalar 153, Scalar 204]]]"


section \<open>The probability gate\<close>

lemma rand_range: "0 \<le> fst (rand g) \<and> fst (rand g) < 1"
  by (simp add: rand_def)

text \<open>
  Claim C1. With \<open>apply_always\<close> false, a call whose random draw is \<open>r\<close> runs the transform
  halves exactly when \<open>r \<ge> p\<close>, and \<open>r\<close> lies in \<open>[0, 1)\<close>: so \<open>p = 0\<close> always
  applies, \<open>p = 1\<close> never applies, and a call that does not apply returns the image and
  the mask it was given and leaves the instance as it was.
\<close>

theorem apply_gate:
  assumes "\<not> apply_always (base_of t)"
  shows "(gate (base_of t) (fst (rand g)) \<longleftrightarrow> fst (rand g) \<ge> p (base_of t))
       \<and> 0 \<le> fst (rand g) \<and> fst (rand g) < 1
       \<and> BaseImageMaskTransformer_call ext t img msk g =
           (if fst (rand g) \<ge> p (base_of t)
            then (case apply_halves ext t img msk (snd (rand g)) of
                    (res, t', g') \<Rightarrow> (call_result_of res, t', g'))
            else (Inr (call_return img msk), t, snd (rand g)))
       \<and> (p (base_of t) = 0 \<longrightarrow>
            BaseImageMaskTransformer_call ext t img msk g =
              (case apply_halves ext t img msk (snd (rand g)) of
                 (res, t', g') \<Rightarrow> (call_result_of res, t', g')))
       \<and> (p (base_of t) = 1 \<longrightarrow>
            BaseImageMaskTransformer_call ext t img msk g =
              (Inr (call_return img msk), t, snd (rand g)))"
proof -
  have r: "0 \<le> fst (rand g)" "fst (rand g) < 1"
    using rand_range by auto
  have c: "BaseImageMaskTransformer_call ext t img msk g =
           (if fst (rand g) \<ge> p (base_of t)
            then (case apply_halves ext t img msk (snd (rand g)) of
                    (res, t', g') \<Rightarrow> (call_result_of res, t', g'))
            else (Inr (call_return img msk), t, snd (rand g)))"
    using assms
    by (simp add: BaseImageMaskTransformer_call_def gate_def call_result_of_def
             split: prod.splits)
  show ?thesis
    using assms r c by (simp add: gate_def)
qed

theorem apply_gate_witness:
  "\<not> apply_always (base_of (RandomVerticalFlip (default_kwargs\<lparr>p := 0\<rparr>)))
   \<and> BaseImageMaskTransformer_call failing_externals
       (RandomVerticalFlip (default_kwargs\<lparr>p := 0\<rparr>)) image_2x1 (NdArray mask_2x1) (sconst 5)
     = (Inr (ImageAndMask (Arr [Arr [Scalar 2], Arr [Scalar 1]])
               (NdArray (Arr [Arr [Scalar 4], Arr [Scalar 3]]))),
        RandomVerticalFlip (default_kwargs\<lparr>p := 0\<rparr>), sconst 5)
   \<and> \<not> apply_always (base_of (RandomVerticalFlip (default_kwargs\<lparr>p := 1\<rparr>)))
   \<and> BaseImageMaskTransformer_call failing_externals
       (RandomVerticalFlip (default_kwargs\<lparr>p := 1\<rparr>)) image_2x1 (NdArray mask_2x1) (sconst 5)
     = (Inr (ImageAndMask image_2x1 (NdArray mask_2x1)),
        RandomVerticalFlip (default_kwargs\<lparr>p := 1\<rparr>), sconst 5)"
  using apply_gate [of "RandomVerticalFlip (default_kwargs\<lparr>p := 0\<rparr>)" "sconst 5"
          failing_externals image_2x1 "NdArray mask_2x1"]
        apply_gate [of "RandomVerticalFlip (default_kwargs\<lparr>p := 1\<rparr>)" "sconst 5"
          failing_externals image_2x1 "NdArray mask_2x1"]
  by (simp add: default_kwargs_def rand_def apply_halves_def call_result_of_def call_return_def
        RandomVerticalFlip_transform_def image_2x1_def mask_2x1_def)

section \<open>Flips\<close>

lemma reverse_axis_twice: "reverse_axis (reverse_axis a) = a"
  by (cases a) simp_all

lemma ndim_Arr: "ndim (Arr xs) = Suc (case xs of [] \<Rightarrow> 0 | x # _ \<Rightarrow> ndim x)"
  by (simp add: ndim_def split: list.splits)

lemma ndim_reverse_axis: "ndim (reverse_axis a) \<ge> 1 \<longleftrightarrow> ndim a \<ge> 1"
  by (cases a) (simp_all add: ndim_def)

lemma np_flipud_twice: "1 \<le> ndim a \<Longrightarrow> \<exists>b. np_flipud a = Inr b \<and> np_flipud b = Inr a"
  by (cases a) (simp_all add: ndim_def)

lemma np_fliplr_twice:
  assumes "2 \<le> ndim a"
  shows "\<exists>b. np_fliplr a = Inr b \<and> np_fliplr b = Inr a"
proof (cases a)
  case (Scalar x)
  with assms show ?thesis by (simp add: ndim_def)
next
  case (Arr xs)
  with assms obtain x rest where xs: "xs = x # rest" and x: "1 \<le> ndim x"
    by (cases xs) (simp_all add: ndim_def)
  have "ndim (Arr (map reverse_axis xs)) \<ge> 2"
    using xs x ndim_reverse_axis [of x] by (simp add: ndim_Arr)
  moreover have "map reverse_axis (map reverse_axis xs) = xs"
    by (simp add: reverse_axis_twice comp_def)
  ultimately show ?thesis
    using Arr assms by (simp add: np_fliplr_def)
qed

text \<open>
  Claim C9. On an array with at least one axis the body of the vertical flip succeeds,
  and applied to its own result it gives back the array; the same holds for the body of
  the horizontal flip on an array with at least two axes. Images and masks have two or
  three axes.
\<close>

theorem flips_are_involutions:
  "(1 \<le> ndim a \<longrightarrow>
      (\<exists>b. RandomVerticalFlip_transform a = Inr b \<and> RandomVerticalFlip_transform b = Inr a))
   \<and> (2 \<le> ndim a \<longrightarrow>
      (\<exists>b. RandomHorizontalFlip_transform a = Inr b
           \<and> RandomHorizontalFlip_transform b = Inr a))"
  using np_flipud_twice [of a] np_fliplr_twice [of a]
  by (simp add: RandomVerticalFlip_transform_def RandomHorizontalFlip_transform_def)

theorem flips_are_involutions_witness:
  "1 \<le> ndim image_2x2 \<and> 2 \<le> ndim image_2x2
   \<and> RandomVerticalFlip_transform image_2x2
       = Inr (Arr [Arr [Scalar 3, Scalar 4], Arr [Scalar 1, Scalar 2]])
   \<and> RandomVerticalFlip_transform (Arr [Arr [Scalar 3, Scalar 4], Arr [Scalar 1, Scalar 2]])
       = Inr image_2x2
   \<and> RandomHorizontalFlip_transform image_2x2
       = Inr (Arr [Arr [Scalar 2, Scalar 1], Arr [Scalar 4, Scalar 3]])
   \<and> RandomHorizontalFlip_transform (Arr [Arr [Scalar 2, Scalar 1], Arr [Scalar 4, Scalar 3]])
       = Inr image_2x2"
  using flips_are_involutions [of image_2x2]
  by (simp add: image_2x2_def ndim_def RandomVerticalFlip_transform_def
        RandomHorizontalFlip_transform_def np_fliplr_def)

section \<open>MakeBorder\<close>

lemma list_getitem_four:
  "list_getitem [a, b, c, d] 0 = Inr a" "list_getitem [a, b, c, d] 1 = Inr b"
  "list_getitem [a, b, c, d] 2 = Inr c" "list_getitem [a, b, c, d] 3 = Inr d"
  by (simp_all add: list_getitem_def)

lemma MakeBorder_transform_four:
  "MakeBorder_transform ext [s, s, s, s] img = cv2_copyMakeBorder ext img s s s s BORDER_REFLECT"
  by (simp add: MakeBorder_transform_def list_getitem_four)

text \<open>
  Claim C10. \<open>MakeBorder\<close> built from a number \<open>s\<close> is the instance built from the tuple
  \<open>(s, s, s, s)\<close>. Its gate is open for every draw, its mask flag is off, its body is
  OpenCV's \<open>copyMakeBorder\<close> with the four sizes and the reflecting border, and a call
  pads the image (when the image flag is on) and returns the mask it was given.
\<close>

theorem MakeBorder_scalar:
  "MakeBorder_init (BorderInt s) kwargs = MakeBorder_init (BorderTuple [s, s, s, s]) kwargs
   \<and> MakeBorder_init (BorderInt s) kwargs
       = MakeBorder (kwargs\<lparr>apply_always := True, apply_mask := False\<rparr>) [s, s, s, s]
   \<and> gate (base_of (MakeBorder_init (BorderInt s) kwargs)) r
   \<and> \<not> apply_mask (base_of (MakeBorder_init (BorderInt s) kwargs))
   \<and> transform ext (MakeBorder_init (BorderInt s) kwargs) img md g
       = (cv2_copyMakeBorder ext img s s s s BORDER_REFLECT,
          MakeBorder_init (BorderInt s) kwargs, g)
   \<and> BaseImageMaskTransformer_call ext (MakeBorder_init (BorderInt s) kwargs) img msk g
       = (if apply_image kwargs
          then (case cv2_copyMakeBorder ext img s s s s BORDER_REFLECT of
                  Inl e \<Rightarrow> Inl e
                | Inr img' \<Rightarrow> Inr (call_return img' msk))
          else Inr (call_return img msk),
          MakeBorder_init (BorderInt s) kwargs, snd (rand g))"
proof -
  let ?t = "MakeBorder (kwargs\<lparr>apply_always := True, apply_mask := False\<rparr>) [s, s, s, s]"
  have i: "MakeBorder_init (BorderInt s) kwargs = ?t"
          "MakeBorder_init (BorderTuple [s, s, s, s]) kwargs = ?t"
    by (simp_all add: MakeBorder_init_def)
  have t: "transform ext ?t img md g = (cv2_copyMakeBorder ext img s s s s BORDER_REFLECT, ?t, g)"
    for md g
    by (simp add: MakeBorder_transform_four)
  have h: "apply_halves ext ?t img msk g0 =
           (if apply_image kwargs
            then (case cv2_copyMakeBorder ext img s s s s BORDER_REFLECT of
                    Inl e \<Rightarrow> Inl e
                  | Inr img' \<Rightarrow> Inr (img', msk))
            else Inr (img, msk), ?t, g0)" for g0
    unfolding apply_halves_def t
    by (simp split: sum.splits pyval.splits)
  have c: "BaseImageMaskTransformer_call ext ?t img msk g
       = (if apply_image kwargs
          then (case cv2_copyMakeBorder ext img s s s s BORDER_REFLECT of
                  Inl e \<Rightarrow> Inl e
                | Inr img' \<Rightarrow> Inr (call_return img' msk))
          else Inr (call_return img msk), ?t, snd (rand g))"
    unfolding BaseImageMaskTransformer_call_def h
    by (simp add: gate_def call_result_of_def split: prod.splits sum.splits)
  show ?thesis
    unfolding i using t c by (simp add: gate_def)
qed


section \<open>Resize\<close>

lemma shape_build_Cons:
  "shape (build (n # ns) f) = n # (if n = 0 then [] else shape (build ns (\<lambda>idx. f (0 # idx))))"
  by (simp add: upt_conv_Cons)

lemma nearest_resize_shape:
  "nearest_resize a (w, h) i = Inr b \<Longrightarrow> take 2 (shape b) = [nat h, nat w]"
  unfolding nearest_resize_def
  by (auto simp: shape_build_Cons split: if_splits simp del: build.simps)

lemma Resize_halves:
  "apply_halves ext (Resize (kw\<lparr>apply_image := True, apply_mask := True\<rparr>) sz) img (NdArray m) g0
   = (case cv2_resize ext img (sz, sz) INTER_LINEAR of
        Inl e \<Rightarrow> Inl e
      | Inr img' \<Rightarrow>
          (case cv2_resize ext m (sz, sz) INTER_NEAREST of
             Inl e \<Rightarrow> Inl e
           | Inr m' \<Rightarrow> Inr (img', NdArray m')),
      Resize (kw\<lparr>apply_image := True, apply_mask := True\<rparr>) sz, g0)"
  by (simp add: apply_halves_def Resize_transform_def split: sum.splits)

text \<open>
  Claim C6. The gate of \<open>Resize(S)\<close> is open for every draw and every \<open>p\<close>. A call on an
  image and a dense mask resizes the image to \<open>(S, S)\<close> with linear interpolation and the
  mask to \<open>(S, S)\<close> with nearest-neighbour interpolation. OpenCV's \<open>resize\<close> is a parameter,
  taken with its contract that a result for \<open>dsize = (w, h)\<close> has \<open>h\<close> rows and \<open>w\<close>
  columns: where it returns, the image and the mask returned have spatial shape
  \<open>S \<times> S\<close>.
\<close>

theorem Resize_always_applied:
  assumes contract:
    "\<And>a w h i b. cv2_resize ext a (w, h) i = Inr b \<Longrightarrow> take 2 (shape b) = [nat h, nat w]"
  shows "gate (base_of (Resize_init sz kwargs)) r
     \<and> BaseImageMaskTransformer_call ext
          (Resize_init sz (kwargs\<lparr>apply_image := True, apply_mask := True\<rparr>)) img (NdArray m) g
        = (case cv2_resize ext img (sz, sz) INTER_LINEAR of
             Inl e \<Rightarrow> Inl e
           | Inr img' \<Rightarrow>
               (case cv2_resize ext m (sz, sz) INTER_NEAREST of
                  Inl e \<Rightarrow> Inl e
                | Inr m' \<Rightarrow> Inr (ImageAndMask img' (NdArray m'))),
           Resize_init sz (kwargs\<lparr>apply_image := True, apply_mask := True\<rparr>), snd (rand g))
     \<and> (cv2_resize ext img (sz, sz) INTER_LINEAR = Inr img'
          \<and> cv2_resize ext m (sz, sz) INTER_NEAREST = Inr m' \<longrightarrow>
          BaseImageMaskTransformer_call ext
            (Resize_init sz (kwargs\<lparr>apply_image := True, apply_mask := True\<rparr>)) img (NdArray m) g
          = (Inr (ImageAndMask img' (NdArray m')),
             Resize_init sz (kwargs\<lparr>apply_image := True, apply_mask := True\<rparr>), snd (rand g))
          \<and> take 2 (shape img') = [nat sz, nat sz]
          \<and> take 2 (shape m') = [nat sz, nat sz])"
proof -
  let ?kw = "kwargs\<lparr>apply_image := True, apply_mask := True\<rparr>"
  have g: "gate (base_of (Resize_init sz kwargs)) r"
    by (simp add: Resize_init_def gate_def)
  have i: "Resize_init sz ?kw = Resize (kwargs\<lparr>apply_always := True\<rparr>\<lparr>apply_image := True, apply_mask := True\<rparr>) sz"
    by (simp add: Resize_init_def)
  have c: "BaseImageMaskTransformer_call ext (Resize_init sz ?kw) img (NdArray m) g
        = (case cv2_resize ext img (sz, sz) INTER_LINEAR of
             Inl e \<Rightarrow> Inl e
           | Inr img' \<Rightarrow>
               (case cv2_resize ext m (sz, sz) INTER_NEAREST of
                  Inl e \<Rightarrow> Inl e
                | Inr m' \<Rightarrow> Inr (ImageAndMask img' (NdArray m'))),
           Resize_init sz ?kw, snd (rand g))"
    unfolding i BaseImageMaskTransformer_call_def Resize_halves
    by (simp add: gate_def call_result_of_def call_return_def split: prod.splits sum.splits)
  have s: "take 2 (shape img') = [nat sz, nat sz] \<and> take 2 (shape m') = [nat sz, nat sz]"
    if "cv2_resize ext img (sz, sz) INTER_LINEAR = Inr img'"
       "cv2_resize ext m (sz, sz) INTER_NEAREST = Inr m'"
    using that contract by blast
  show ?thesis
    using g c s by simp
qed

theorem Resize_always_applied_witness:
  "BaseImageMaskTransformer_call nearest_externals
     (Resize_init 1 (default_kwargs\<lparr>apply_image := True, apply_mask := True\<rparr>))
     image_2x2 (NdArray mask_2x1) (sconst 5)
   = (Inr (ImageAndMask (Arr [Arr [Scalar 1]]) (NdArray (Arr [Arr [Scalar 3]]))),
      Resize_init 1 (default_kwargs\<lparr>apply_image := True, apply_mask := True\<rparr>), sconst 5)
   \<and> take 2 (shape (Arr [Arr [Scalar (1::int)]])) = [nat 1, nat 1]
   \<and> take 2 (shape (Arr [Arr [Scalar (3::int)]])) = [nat 1, nat 1]"
proof -
  have c: "\<And>a w h i b. cv2_resize nearest_externals a (w, h) i = Inr b
             \<Longrightarrow> take 2 (shape b) = [nat h, nat w]"
    using nearest_resize_shape by (simp add: nearest_externals_def)
  have i: "cv2_resize nearest_externals image_2x2 (1, 1) INTER_LINEAR = Inr (Arr [Arr [Scalar 1]])"
    by (simp add: nearest_externals_def nearest_resize_def image_2x2_def ndim_def)
  have m: "cv2_resize nearest_externals mask_2x1 (1, 1) INTER_NEAREST = Inr (Arr [Arr [Scalar 3]])"
    by (simp add: nearest_externals_def nearest_resize_def mask_2x1_def ndim_def)
  show ?thesis
    using Resize_always_applied [of nearest_externals 1 default_kwargs 0 image_2x2 mask_2x1
            "sconst 5" "Arr [Arr [Scalar 1]]" "Arr [Arr [Scalar 3]]", OF c] i m
    by (simp add: rand_def)
qed


section \<open>The mask sentinel\<close>

lemma apply_halves_not_array:
  "\<not> is_ndarray msk \<Longrightarrow>
   apply_halves ext t img msk g =
     (case (if apply_image (base_of t) then transform ext t img Image g else (Inr img, t, g)) of
        (Inl e, t1, g1) \<Rightarrow> (Inl e, t1, g1)
      | (Inr img', t1, g1) \<Rightarrow> (Inr (img', msk), t1, g1))"
  by (cases msk) (simp_all add: apply_halves_def is_ndarray_def split: prod.splits sum.splits)

lemma call_keeps_PyInt:
  assumes "BaseImageMaskTransformer_call ext t img (PyInt k) g = (Inr res, t', g')"
  shows "\<exists>img'. res = ImageAndMask img' (PyInt k)"
  using assms
  by (auto simp: BaseImageMaskTransformer_call_def apply_halves_not_array is_ndarray_def
        call_result_of_def call_return_def split: prod.splits sum.splits if_splits)

lemma Compose_keeps_PyInt:
  "ImageMaskTransformsCompose_call ext ts img (PyInt k) g = (Inr (img', msk'), ts', g')
   \<Longrightarrow> msk' = PyInt k"
proof (induction ts arbitrary: img g img' ts' g')
  case Nil
  then show ?case by simp
next
  case (Cons t ts)
  obtain r t1 g1 where c: "BaseImageMaskTransformer_call ext t img (PyInt k) g = (r, t1, g1)"
    by (cases "BaseImageMaskTransformer_call ext t img (PyInt k) g") auto
  show ?case
  proof (cases r)
    case (Inl e)
    with Cons.prems c show ?thesis by simp
  next
    case (Inr res)
    with c call_keeps_PyInt obtain img1 where res: "res = ImageAndMask img1 (PyInt k)"
      by blast
    obtain r2 ts2 g2 where
      c2: "ImageMaskTransformsCompose_call ext ts img1 (PyInt k) g1 = (r2, ts2, g2)"
      by (cases "ImageMaskTransformsCompose_call ext ts img1 (PyInt k) g1") auto
    with Cons.prems c Inr res have "r2 = Inr (img', msk')"
      by simp
    with c2 Cons.IH show ?thesis by blast
  qed
qed

lemma apply_transforms_not_array:
  assumes "\<forall>tr img img' msk' w w'. ds_transform self = Some tr
             \<longrightarrow> tr img (PyInt k) w = (Inr (img', msk'), w') \<longrightarrow> msk' = PyInt k"
  shows "apply_transforms self img (PyInt k) w
           = apply_transforms (self\<lparr>mask_transform := mt\<rparr>) img (PyInt k) w
       \<and> (apply_transforms self img (PyInt k) w = (Inr (img', msk'), w') \<longrightarrow> msk' = PyInt k)"
proof -
  obtain r1 w1 where s1: "(case ds_transform self of
              Some tr \<Rightarrow> tr img (PyInt k) w
            | None \<Rightarrow> (Inr (img, PyInt k), w)) = (r1, w1)"
    by (cases "(case ds_transform self of
              Some tr \<Rightarrow> tr img (PyInt k) w
            | None \<Rightarrow> (Inr (img, PyInt k), w))") auto
  have k: "m1 = PyInt k" if "r1 = Inr (i1, m1)" for i1 m1
  proof (cases "ds_transform self")
    case None
    with s1 that show ?thesis by simp
  next
    case (Some tr)
    with s1 that have "tr img (PyInt k) w = (Inr (i1, m1), w1)" by simp
    with Some assms show ?thesis by blast
  qed
  show ?thesis
  proof (cases r1)
    case (Inl e)
    then show ?thesis using s1 by (simp add: apply_transforms_def)
  next
    case (Inr pr)
    then obtain i1 m1 where pr: "r1 = Inr (i1, m1)" by (cases pr) auto
    then have m1: "m1 = PyInt k" using k by blast
    show ?thesis
      using s1 pr m1
      by (auto simp: apply_transforms_def split: prod.splits sum.splits option.splits)
  qed
qed

lemma compose_stage_keeps_PyInt:
  "compose_stage ext i (PyInt k) v = (Inr (i', m'), v') \<Longrightarrow> m' = PyInt k"
  unfolding compose_stage_def
  by (auto split: prod.splits dest: Compose_keeps_PyInt)

text \<open>
  Claim C3. A paired call whose mask is not an array skips the mask half, whatever
  \<open>apply_mask\<close> says, and a composed pipeline hands the integer sentinel through. In a
  dataset without a mask list, whose paired stage hands the sentinel through, \<open>get\<close> never
  invokes the mask-only stage: result and state are those of the dataset with any other
  mask-only stage (or none) in its place, and the mask returned is the sentinel.
\<close>

theorem sentinel_mask_untouched:
  "(\<not> is_ndarray msk \<longrightarrow>
      apply_halves ext t img msk g =
        (case (if apply_image (base_of t) then transform ext t img Image g else (Inr img, t, g)) of
           (Inl e, t1, g1) \<Rightarrow> (Inl e, t1, g1)
         | (Inr img', t1, g1) \<Rightarrow> (Inr (img', msk), t1, g1)))
   \<and> (ImageMaskTransformsCompose_call ext ts img (PyInt k) g = (Inr (img', msk'), ts', g')
        \<longrightarrow> msk' = PyInt k)
   \<and> (masks self = None
        \<and> (\<forall>tr i i' m' v v'. ds_transform self = Some tr
              \<longrightarrow> tr i (PyInt 0) v = (Inr (i', m'), v') \<longrightarrow> m' = PyInt 0)
        \<longrightarrow> getitem_dataset load_image self index w
              = getitem_dataset load_image (self\<lparr>mask_transform := mt\<rparr>) index w
          \<and> (getitem_dataset load_image self index w = (Inr (img2, msk2), w2)
               \<longrightarrow> msk2 = PyInt 0))"
proof -
  have c: "getitem_dataset load_image self index w
              = getitem_dataset load_image (self\<lparr>mask_transform := mt\<rparr>) index w
          \<and> (getitem_dataset load_image self index w = (Inr (img2, msk2), w2)
               \<longrightarrow> msk2 = PyInt 0)"
    if n: "masks self = None"
    and h: "\<forall>tr i i' m' v v'. ds_transform self = Some tr
              \<longrightarrow> tr i (PyInt 0) v = (Inr (i', m'), v') \<longrightarrow> m' = PyInt 0"
  proof (cases "load_image_and_mask load_image self index")
    case (Inl e)
    moreover have "load_image_and_mask load_image (self\<lparr>mask_transform := mt\<rparr>) index
                   = load_image_and_mask load_image self index"
      by (simp add: load_image_and_mask_def cong: sum.case_cong)
    ultimately show ?thesis by (simp add: getitem_dataset_def)
  next
    case (Inr pr)
    then obtain i0 where l: "load_image_and_mask load_image self index = Inr (i0, PyInt 0)"
      using n by (auto simp: load_image_and_mask_def split: sum.splits)
    have l': "load_image_and_mask load_image (self\<lparr>mask_transform := mt\<rparr>) index
                   = Inr (i0, PyInt 0)"
      using l by (simp add: load_image_and_mask_def cong: sum.case_cong)
    show ?thesis
      using apply_transforms_not_array [OF h, of i0 w mt img2 msk2 w2] l l'
      by (simp add: getitem_dataset_def)
  qed
  show ?thesis
    using apply_halves_not_array [of msk ext t img g]
          Compose_keeps_PyInt [of ext ts img k g img' msk' ts' g'] c
    by blast
qed

theorem sentinel_mask_untouched_witness:
  "\<not> is_ndarray (PyInt 0 :: int pyval)
   \<and> masks maskless_dataset = None
   \<and> getitem_dataset one_file_loader maskless_dataset 0
        (([RandomVerticalFlip (default_kwargs\<lparr>p := 0\<rparr>)], sconst 5), 0)
      = ((Inr (Arr [Arr [Scalar 2], Arr [Scalar 1]], PyInt 0)),
         (([RandomVerticalFlip (default_kwargs\<lparr>p := 0\<rparr>)], sconst 5), 0))"
proof -
  let ?w = "(([RandomVerticalFlip (default_kwargs\<lparr>p := 0\<rparr>)], sconst 5), 0::nat)"
  have h: "\<forall>tr i i' m' v v'. ds_transform maskless_dataset = Some tr
              \<longrightarrow> tr i (PyInt 0) v = (Inr (i', m'), v') \<longrightarrow> m' = PyInt 0"
    using compose_stage_keeps_PyInt by (auto simp: maskless_dataset_def)
  have e: "getitem_dataset one_file_loader (maskless_dataset\<lparr>mask_transform := None\<rparr>) 0 ?w
      = ((Inr (Arr [Arr [Scalar 2], Arr [Scalar 1]], PyInt 0)), ?w)"
    by (simp add: getitem_dataset_def load_image_and_mask_def maskless_dataset_def
          list_getitem_def one_file_loader_def apply_transforms_def compose_stage_def
          BaseImageMaskTransformer_call_def rand_def gate_def default_kwargs_def
          apply_halves_def RandomVerticalFlip_transform_def image_2x1_def call_result_of_def
          call_return_def)
  show ?thesis
    using sentinel_mask_untouched [of "PyInt 0" failing_externals "RandomVerticalFlip default_kwargs"
            image_2x1 "sconst 5" "[]" 0 image_2x1 "PyInt 0" "[]" "sconst 5" maskless_dataset
            one_file_loader 0 ?w None image_2x1 "PyInt 0" ?w] h e
    by (simp add: is_ndarray_def maskless_dataset_def)
qed


section \<open>Indexing the dataset\<close>

text \<open>
  The claim as stated fails: the index \<open>-1\<close> lies outside \<open>[0, length)\<close>, and \<open>get\<close>
  returns the last sample.
\<close>

theorem negative_index_counterexample:
  "\<not> in_range maskless_dataset (- 1)
   \<and> getitem_dataset one_file_loader maskless_dataset (- 1) (([], sconst 5), 0)
       = (Inr (image_2x1, PyInt 0), (([], sconst 5), 0))"
  by (simp add: in_range_def len_dataset_def maskless_dataset_def getitem_dataset_def
        load_image_and_mask_def list_getitem_def one_file_loader_def apply_transforms_def
        compose_stage_def)

lemma list_getitem_outside:
  "i < - int (length xs) \<or> int (length xs) \<le> i \<Longrightarrow> list_getitem xs i = Inl IndexError"
  by (auto simp: list_getitem_def)

lemma list_getitem_negative:
  "- int (length xs) \<le> i \<Longrightarrow> i < 0 \<Longrightarrow> list_getitem xs i = list_getitem xs (i + int (length xs))"
  by (auto simp: list_getitem_def)

text \<open>
  Claim C5, amended. In a dataset whose length is the number of its images (and of its
  masks, when it has masks), \<open>get\<close> fails with IndexError for every index below
  \<open>-length\<close> or from \<open>length\<close> on, before anything is loaded; an index of
  \<open>[-length, 0)\<close> counts from the end, as Python's list indexing does.
\<close>

theorem index_out_of_range:
  assumes "len_dataset self = length (images self)"
    and "case masks self of None \<Rightarrow> True | Some ms \<Rightarrow> length ms = length (images self)"
  shows "(index < - int (len_dataset self) \<or> int (len_dataset self) \<le> index
            \<longrightarrow> getitem_dataset load_image self index w = (Inl IndexError, w))
       \<and> (- int (len_dataset self) \<le> index \<and> index < 0
            \<longrightarrow> getitem_dataset load_image self index w
                = getitem_dataset load_image self (index + int (len_dataset self)) w)"
proof (intro conjI impI)
  assume "index < - int (len_dataset self) \<or> int (len_dataset self) \<le> index"
  then have "list_getitem (images self) index = Inl IndexError"
    using assms(1) list_getitem_outside [of index "images self"] by simp
  then show "getitem_dataset load_image self index w = (Inl IndexError, w)"
    by (simp add: getitem_dataset_def load_image_and_mask_def)
next
  assume a: "- int (len_dataset self) \<le> index \<and> index < 0"
  then have i: "list_getitem (images self) index
                = list_getitem (images self) (index + int (len_dataset self))"
    using assms(1) list_getitem_negative [of "images self" index] by simp
  have m: "list_getitem ms index = list_getitem ms (index + int (len_dataset self))"
    if "masks self = Some ms" for ms
    using that a assms list_getitem_negative [of ms index] by simp
  have "load_image_and_mask load_image self index
        = load_image_and_mask load_image self (index + int (len_dataset self))"
    unfolding load_image_and_mask_def i
    by (cases "masks self") (simp_all add: m cong: sum.case_cong)
  then show "getitem_dataset load_image self index w
                = getitem_dataset load_image self (index + int (len_dataset self)) w"
    by (simp add: getitem_dataset_def)
qed

theorem index_out_of_range_witness:
  "len_dataset maskless_dataset = length (images maskless_dataset)
   \<and> (case masks maskless_dataset of None \<Rightarrow> True
       | Some ms \<Rightarrow> length ms = length (images maskless_dataset))
   \<and> (1 < - int (len_dataset maskless_dataset) \<or> int (len_dataset maskless_dataset) \<le> 1)
   \<and> getitem_dataset one_file_loader maskless_dataset 1 (([], sconst 5), 0)
       = (Inl IndexError, (([], sconst 5), 0))
   \<and> (- int (len_dataset maskless_dataset) \<le> - 1 \<and> (- 1 :: int) < 0)
   \<and> getitem_dataset one_file_loader maskless_dataset (- 1) (([], sconst 5), 0)
       = getitem_dataset one_file_loader maskless_dataset 0 (([], sconst 5), 0)"
  using index_out_of_range [of maskless_dataset 1 one_file_loader "(([], sconst 5), 0)"]
        index_out_of_range [of maskless_dataset "- 1" one_file_loader "(([], sconst 5), 0)"]
  by (simp add: len_dataset_def maskless_dataset_def)


section \<open>Parameters shared by image and mask\<close>

lemma mask_half_keeps_instance: "fst (snd (transform ext t m Mask g)) = t"
  by (cases t)
     (simp_all add: SamplePatch_transform_def Rotate_transform_def Rotate90n_transform_def
        Scale_transform_def split: prod.splits)

lemma call_both_halves:
  assumes "gate (base_of t) (fst (rand g))" "apply_image (base_of t)"
    and "transform ext t img Image (snd (rand g)) = (Inr img', t1, g1)"
    and "apply_mask (base_of t1)"
  shows "BaseImageMaskTransformer_call ext t img (NdArray m) g =
           (case transform ext t1 m Mask g1 of
              (Inl e, t2, g2) \<Rightarrow> (Inl e, t2, g2)
            | (Inr m', t2, g2) \<Rightarrow> (Inr (ImageAndMask img' (NdArray m')), t2, g2))"
proof -
  obtain r g0 where rg: "rand g = (r, g0)"
    by (cases "rand g") auto
  obtain rm t2 g2 where tm: "transform ext t1 m Mask g1 = (rm, t2, g2)"
    by (cases "transform ext t1 m Mask g1") auto
  have h: "apply_halves ext t img (NdArray m) g0 =
             (case rm of Inl e \<Rightarrow> Inl e | Inr m' \<Rightarrow> Inr (img', NdArray m'), t2, g2)"
    using assms rg tm by (cases rm) (simp_all add: apply_halves_def)
  show ?thesis
    using assms(1) rg tm
    by (cases rm)
       (simp_all add: BaseImageMaskTransformer_call_def h call_result_of_def call_return_def)
qed

lemma call_image_half_fails:
  assumes "gate (base_of t) (fst (rand g))" "apply_image (base_of t)"
    and "transform ext t img Image (snd (rand g)) = (Inl e, t1, g1)"
  shows "BaseImageMaskTransformer_call ext t img msk g = (Inl e, t1, g1)"
proof -
  obtain r g0 where rg: "rand g = (r, g0)"
    by (cases "rand g") auto
  have h: "apply_halves ext t img msk g0 = (Inl e, t1, g1)"
    using assms rg by (simp add: apply_halves_def)
  show ?thesis
    using assms(1) rg
    by (simp add: BaseImageMaskTransformer_call_def h call_result_of_def)
qed

lemma SamplePatch_shared:
  assumes "gate b (fst (rand g))" "apply_image b" "apply_mask b"
    and "shape_at img 0 = Inr h" "shape_at img 1 = Inr w"
    and "randint 0 (int h - patch_size) (snd (rand g)) = (Inr y, g1)"
    and "randint 0 (int w - patch_size) g1 = (Inr x, g2)"
  shows "BaseImageMaskTransformer_call ext (SamplePatch b patch_size ch cw) img (NdArray m) g
         = (crop_both patch_size y x img m, SamplePatch b patch_size y x, g2)"
proof (cases "SamplePatch_crop patch_size y x img")
  case (Inl e)
  have "transform ext (SamplePatch b patch_size ch cw) img Image (snd (rand g))
        = (Inl e, SamplePatch b patch_size y x, g2)"
    using assms Inl by (simp add: SamplePatch_transform_def)
  then show ?thesis
    using assms Inl call_image_half_fails [of "SamplePatch b patch_size ch cw" g ext img]
    by (simp add: crop_both_def)
next
  case (Inr img')
  have "transform ext (SamplePatch b patch_size ch cw) img Image (snd (rand g))
        = (Inr img', SamplePatch b patch_size y x, g2)"
    using assms Inr by (simp add: SamplePatch_transform_def)
  then show ?thesis
    using assms Inr call_both_halves [of "SamplePatch b patch_size ch cw" g ext img img'
            "SamplePatch b patch_size y x" g2 m]
    by (simp add: crop_both_def SamplePatch_transform_def split: sum.splits)
qed

lemma affine_shared:
  assumes "gate (base_of t) (fst (rand g))" "apply_image (base_of t)"
    and "base_of t1 = base_of t" "apply_mask (base_of t)"
    and i: "\<And>a. transform ext t a Image (snd (rand g))
            = (case augment_image ext (IaaAffine aug) a g1 of (res, g2) \<Rightarrow> (res, t1, g2))"
    and k: "\<And>a g'. transform ext t1 a Mask g'
            = (case augment_image ext (IaaAffine aug) a g' of (res, g2) \<Rightarrow> (res, t1, g2))"
  shows "BaseImageMaskTransformer_call ext t img (NdArray m) g
         = (case augment_both ext aug img m g1 of (res, g') \<Rightarrow> (res, t1, g'))"
proof -
  obtain r g2 where a: "augment_image ext (IaaAffine aug) img g1 = (r, g2)"
    by (cases "augment_image ext (IaaAffine aug) img g1") auto
  then have ti: "transform ext t img Image (snd (rand g)) = (r, t1, g2)"
    using i by simp
  show ?thesis
  proof (cases r)
    case (Inl e)
    then show ?thesis
      using assms(1,2) ti a call_image_half_fails [of t g ext img e t1 g2]
      by (simp add: augment_both_def)
  next
    case (Inr img')
    then show ?thesis
      using assms(1-4) ti a call_both_halves [of t g ext img img' t1 g2 m]
      by (simp add: augment_both_def k split: prod.splits sum.splits)
  qed
qed

text \<open>
  Claim C2. The mask half of no transform changes the instance, and the mask half of
  \<open>SamplePatch\<close> draws nothing and cuts at the stored offsets. In a call whose gate is open,
  with both halves enabled and a dense mask: \<open>SamplePatch\<close> draws its two offsets on the
  image half, stores them, and cuts image and mask at these offsets; \<open>Rotate\<close>,
  \<open>Rotate90n\<close> and \<open>Scale\<close> draw angle or scale on the image half, store it in the
  augmenter, and run image and mask through that one augmenter.
\<close>

theorem shared_parameter:
  "fst (snd (transform ext t m Mask g)) = t
   \<and> transform ext (SamplePatch b patch_size ch cw) m Mask g
       = (SamplePatch_crop patch_size ch cw m, SamplePatch b patch_size ch cw, g)
   \<and> (gate b (fst (rand g)) \<and> apply_image b \<and> apply_mask b \<longrightarrow>
       (shape_at img 0 = Inr h \<and> shape_at img 1 = Inr w
         \<and> randint 0 (int h - patch_size) (snd (rand g)) = (Inr y, g1)
         \<and> randint 0 (int w - patch_size) g1 = (Inr x, g2) \<longrightarrow>
           BaseImageMaskTransformer_call ext (SamplePatch b patch_size ch cw) img (NdArray m) g
           = (crop_both patch_size y x img m, SamplePatch b patch_size y x, g2))
     \<and> (randint from_val to_val (snd (rand g)) = (Inr angle, g1) \<longrightarrow>
           BaseImageMaskTransformer_call ext (Rotate b from_val to_val md aug) img (NdArray m) g
           = (case augment_both ext (aug\<lparr>affine_rotate := of_int angle\<rparr>) img m g1 of
                (res, g') \<Rightarrow>
                  (res, Rotate b from_val to_val md (aug\<lparr>affine_rotate := of_int angle\<rparr>), g')))
     \<and> (choice angles (snd (rand g)) = (Inr angle, g1) \<longrightarrow>
           BaseImageMaskTransformer_call ext (Rotate90n b angles aug) img (NdArray m) g
           = (case augment_both ext (aug\<lparr>affine_rotate := of_int angle\<rparr>) img m g1 of
                (res, g') \<Rightarrow>
                  (res, Rotate90n b angles (aug\<lparr>affine_rotate := of_int angle\<rparr>), g')))
     \<and> (uniform lo hi (snd (rand g)) = (sc, g1) \<longrightarrow>
           BaseImageMaskTransformer_call ext (Scale b lo hi md aug) img (NdArray m) g
           = (case augment_both ext (aug\<lparr>affine_scale := sc\<rparr>) img m g1 of
                (res, g') \<Rightarrow> (res, Scale b lo hi md (aug\<lparr>affine_scale := sc\<rparr>), g'))))"
proof -
  have p1: "fst (snd (transform ext t m Mask g)) = t"
    by (rule mask_half_keeps_instance)
  have p2: "transform ext (SamplePatch b patch_size ch cw) m Mask g
       = (SamplePatch_crop patch_size ch cw m, SamplePatch b patch_size ch cw, g)"
    by (simp add: SamplePatch_transform_def)
  have p3: "BaseImageMaskTransformer_call ext (SamplePatch b patch_size ch cw) img (NdArray m) g
           = (crop_both patch_size y x img m, SamplePatch b patch_size y x, g2)"
    if "gate b (fst (rand g))" "apply_image b" "apply_mask b"
       "shape_at img 0 = Inr h" "shape_at img 1 = Inr w"
       "randint 0 (int h - patch_size) (snd (rand g)) = (Inr y, g1)"
       "randint 0 (int w - patch_size) g1 = (Inr x, g2)"
    using that by (rule SamplePatch_shared)
  have p4: "BaseImageMaskTransformer_call ext (Rotate b from_val to_val md aug) img (NdArray m) g
           = (case augment_both ext (aug\<lparr>affine_rotate := of_int angle\<rparr>) img m g1 of
                (res, g') \<Rightarrow>
                  (res, Rotate b from_val to_val md (aug\<lparr>affine_rotate := of_int angle\<rparr>), g'))"
    if "gate b (fst (rand g))" "apply_image b" "apply_mask b"
       "randint from_val to_val (snd (rand g)) = (Inr angle, g1)"
    using that
    by (intro affine_shared) (simp_all add: Rotate_transform_def split: prod.splits)
  have p5: "BaseImageMaskTransformer_call ext (Rotate90n b angles aug) img (NdArray m) g
           = (case augment_both ext (aug\<lparr>affine_rotate := of_int angle\<rparr>) img m g1 of
                (res, g') \<Rightarrow>
                  (res, Rotate90n b angles (aug\<lparr>affine_rotate := of_int angle\<rparr>), g'))"
    if "gate b (fst (rand g))" "apply_image b" "apply_mask b"
       "choice angles (snd (rand g)) = (Inr angle, g1)"
    using that
    by (intro affine_shared) (simp_all add: Rotate90n_transform_def split: prod.splits)
  have p6: "BaseImageMaskTransformer_call ext (Scale b lo hi md aug) img (NdArray m) g
           = (case augment_both ext (aug\<lparr>affine_scale := sc\<rparr>) img m g1 of
                (res, g') \<Rightarrow> (res, Scale b lo hi md (aug\<lparr>affine_scale := sc\<rparr>), g'))"
    if "gate b (fst (rand g))" "apply_image b" "apply_mask b"
       "uniform lo hi (snd (rand g)) = (sc, g1)"
    using that
    by (intro affine_shared) (simp_all add: Scale_transform_def split: prod.splits)
  show ?thesis
    using p1 p2 p3 p4 p5 p6 by blast
qed


theorem shared_parameter_witness:
  "gate (default_kwargs\<lparr>apply_always := True\<rparr>) (fst (rand (5 ## 3 ## 2 ## sconst 0)))
   \<and> BaseImageMaskTransformer_call shift_externals (SamplePatch_init 1 default_kwargs)
        image_3x3 (NdArray mask_3x3) (5 ## 3 ## 2 ## sconst 0)
      = (Inr (ImageAndMask (Arr [Arr [Scalar 4]]) (NdArray (Arr [Arr [Scalar 40]]))),
         SamplePatch (default_kwargs\<lparr>apply_always := True\<rparr>) 1 1 0, sconst 0)
   \<and> gate (default_kwargs\<lparr>p := 0\<rparr>) (fst (rand (5 ## 3 ## sconst 0)))
   \<and> BaseImageMaskTransformer_call shift_externals
        (Rotate_init (- 20) 20 ''reflect'' (default_kwargs\<lparr>p := 0\<rparr>))
        image_2x1 (NdArray mask_2x1) (5 ## 3 ## sconst 0)
      = (Inr (ImageAndMask (Arr [Arr [Scalar (- 16)], Arr [Scalar (- 15)]])
                (NdArray (Arr [Arr [Scalar (- 14)], Arr [Scalar (- 13)]]))),
         Rotate (default_kwargs\<lparr>p := 0\<rparr>) (- 20) 20 ''reflect''
           \<lparr>affine_scale = 1, affine_rotate = - 17, affine_mode = ''reflect''\<rparr>, sconst 0)
   \<and> BaseImageMaskTransformer_call shift_externals (Rotate90n_init (default_kwargs\<lparr>p := 0\<rparr>))
        image_2x1 (NdArray mask_2x1) (5 ## 3 ## sconst 0)
      = (Inr (ImageAndMask (Arr [Arr [Scalar 271], Arr [Scalar 272]])
                (NdArray (Arr [Arr [Scalar 273], Arr [Scalar 274]]))),
         Rotate90n (default_kwargs\<lparr>p := 0\<rparr>) [0, 90, 180, 270]
           \<lparr>affine_scale = 1, affine_rotate = 270, affine_mode = ''constant''\<rparr>, sconst 0)
   \<and> BaseImageMaskTransformer_call shift_externals
        (Scale_init 2 2 ''reflect'' (default_kwargs\<lparr>p := 0\<rparr>))
        image_2x1 (NdArray mask_2x1) (5 ## 3 ## sconst 0)
      = (Inr (ImageAndMask (Arr [Arr [Scalar 2], Arr [Scalar 4]])
                (NdArray (Arr [Arr [Scalar 6], Arr [Scalar 8]]))),
         Scale (default_kwargs\<lparr>p := 0\<rparr>) 2 2 ''reflect''
           \<lparr>affine_scale = 2, affine_rotate = 0, affine_mode = ''reflect''\<rparr>, sconst 0)"
proof -
  have s: "shape_at image_3x3 0 = Inr 3" "shape_at image_3x3 1 = Inr 3"
    by (simp_all add: shape_at_def image_3x3_def)
  have d: "randint 0 (int 3 - 1) (snd (rand (5 ## 3 ## 2 ## sconst 0))) = (Inr 1, 2 ## sconst 0)"
          "randint 0 (int 3 - 1) (2 ## sconst 0) = (Inr 0, sconst 0)"
          "randint (- 20) 20 (snd (rand (5 ## 3 ## sconst 0))) = (Inr (- 17), sconst 0)"
          "choice [0, 90, 180, 270] (snd (rand (5 ## 3 ## sconst 0))) = (Inr 270, sconst 0)"
          "uniform 2 2 (snd (rand (5 ## 3 ## sconst 0))) = (2, sconst 0)"
    by (simp_all add: randint_def rand_def choice_def uniform_def)
  have g: "gate (default_kwargs\<lparr>apply_always := True\<rparr>) (fst (rand (5 ## 3 ## 2 ## sconst 0)))"
          "gate (default_kwargs\<lparr>p := 0\<rparr>) (fst (rand (5 ## 3 ## sconst 0)))"
    by (simp_all add: gate_def default_kwargs_def rand_def)
  have c: "crop_both 1 1 0 image_3x3 mask_3x3
           = Inr (ImageAndMask (Arr [Arr [Scalar 4]]) (NdArray (Arr [Arr [Scalar 40]])))"
    by (simp add: crop_both_def SamplePatch_crop_def slice_nd_def ndim_def image_3x3_def
          mask_3x3_def py_slice_def slice_bound_def)
  have a: "augment_both shift_externals
             \<lparr>affine_scale = 1, affine_rotate = - 17, affine_mode = ''reflect''\<rparr>
             image_2x1 mask_2x1 (sconst 0)
           = (Inr (ImageAndMask (Arr [Arr [Scalar (- 16)], Arr [Scalar (- 15)]])
                (NdArray (Arr [Arr [Scalar (- 14)], Arr [Scalar (- 13)]]))), sconst 0)"
          "augment_both shift_externals
             \<lparr>affine_scale = 1, affine_rotate = 270, affine_mode = ''constant''\<rparr>
             image_2x1 mask_2x1 (sconst 0)
           = (Inr (ImageAndMask (Arr [Arr [Scalar 271], Arr [Scalar 272]])
                (NdArray (Arr [Arr [Scalar 273], Arr [Scalar 274]]))), sconst 0)"
          "augment_both shift_externals
             \<lparr>affine_scale = 2, affine_rotate = 0, affine_mode = ''reflect''\<rparr>
             image_2x1 mask_2x1 (sconst 0)
           = (Inr (ImageAndMask (Arr [Arr [Scalar 2], Arr [Scalar 4]])
                (NdArray (Arr [Arr [Scalar 6], Arr [Scalar 8]]))), sconst 0)"
    by (simp_all add: augment_both_def shift_externals_def image_2x1_def mask_2x1_def)
  show ?thesis
    using shared_parameter [where ext = shift_externals and g = "5 ## 3 ## 2 ## sconst 0"
            and b = "default_kwargs\<lparr>apply_always := True\<rparr>" and patch_size = 1
            and ch = 0 and cw = 0 and img = image_3x3 and m = mask_3x3 and h = 3 and w = 3
            and y = 1 and x = 0 and ?g1.0 = "2 ## sconst 0" and ?g2.0 = "sconst 0"
            and t = "Squarify default_kwargs"]
          shared_parameter [where ext = shift_externals and g = "5 ## 3 ## sconst 0"
            and b = "default_kwargs\<lparr>p := 0\<rparr>" and from_val = "- 20" and to_val = 20
            and md = "''reflect''" and img = image_2x1 and m = mask_2x1 and angle = "- 17"
            and ?g1.0 = "sconst 0" and t = "Squarify default_kwargs"
            and aug = "\<lparr>affine_scale = 1, affine_rotate = 0, affine_mode = ''reflect''\<rparr>"]
          shared_parameter [where ext = shift_externals and g = "5 ## 3 ## sconst 0"
            and b = "default_kwargs\<lparr>p := 0\<rparr>" and angles = "[0, 90, 180, 270]"
            and img = image_2x1 and m = mask_2x1 and angle = 270
            and ?g1.0 = "sconst 0" and t = "Squarify default_kwargs"
            and aug = "\<lparr>affine_scale = 1, affine_rotate = 0, affine_mode = ''constant''\<rparr>"]
          shared_parameter [where ext = shift_externals and g = "5 ## 3 ## sconst 0"
            and b = "default_kwargs\<lparr>p := 0\<rparr>" and lo = 2 and hi = 2 and sc = 2
            and md = "''reflect''" and img = image_2x1 and m = mask_2x1
            and ?g1.0 = "sconst 0" and t = "Squarify default_kwargs"
            and aug = "\<lparr>affine_scale = 1, affine_rotate = 0, affine_mode = ''reflect''\<rparr>"]
          s d g c a
    by (simp add: SamplePatch_init_def Rotate_init_def Rotate90n_init_def Scale_init_def
          default_kwargs_def)
qed


section \<open>SamplePatch\<close>

lemma py_slice_inside:
  assumes "0 \<le> lo" "lo \<le> hi" "hi \<le> int (length xs)"
  shows "py_slice lo hi xs = take (nat (hi - lo)) (drop (nat lo) xs)"
proof -
  have "slice_bound (length xs) lo = nat lo" "slice_bound (length xs) hi = nat hi"
    using assms by (simp_all add: slice_bound_def)
  moreover have "nat hi - nat lo = nat (hi - lo)"
    using assms by simp
  ultimately show ?thesis
    by (simp add: py_slice_def)
qed

lemma length_py_slice_inside:
  assumes "0 \<le> lo" "lo \<le> hi" "hi \<le> int (length xs)"
  shows "length (py_slice lo hi xs) = nat (hi - lo)"
  using assms by (simp add: py_slice_inside)

lemma set_py_slice: "set (py_slice lo hi xs) \<subseteq> set xs"
  unfolding py_slice_def Let_def
  by (meson set_take_subset set_drop_subset subset_trans)

lemma has_shape_slice_one:
  assumes "has_shape (n # ns) a" "0 \<le> lo" "lo \<le> hi" "hi \<le> int n"
  shows "has_shape (nat (hi - lo) # ns) (slice_axes [(lo, hi)] a)"
proof -
  obtain xs where a: "a = Arr xs" and l: "length xs = n" and e: "list_all (has_shape ns) xs"
    using assms(1) by (cases a) auto
  have "list_all (has_shape ns) (py_slice lo hi xs)"
    using e set_py_slice [of lo hi xs] by (auto simp: list_all_iff)
  then show ?thesis
    using a l assms length_py_slice_inside [of lo hi xs]
    by (simp add: list_all_iff)
qed

lemma has_shape_slice_two:
  assumes "has_shape (h # w # rest) a" "0 \<le> lo" "lo \<le> hi" "hi \<le> int h"
    and "0 \<le> lo'" "lo' \<le> hi'" "hi' \<le> int w"
  shows "has_shape (nat (hi - lo) # nat (hi' - lo') # rest) (slice_axes [(lo, hi), (lo', hi')] a)"
proof -
  obtain xs where a: "a = Arr xs" and l: "length xs = h"
    and e: "list_all (has_shape (w # rest)) xs"
    using assms(1) by (cases a) auto
  have "has_shape (nat (hi' - lo') # rest) (slice_axes [(lo', hi')] x)"
    if "x \<in> set (py_slice lo hi xs)" for x
  proof -
    have "has_shape (w # rest) x"
      using that e set_py_slice [of lo hi xs] by (auto simp: list_all_iff)
    then show ?thesis
      using assms(5-7) by (rule has_shape_slice_one)
  qed
  then show ?thesis
    using a l assms(2-4) length_py_slice_inside [of lo hi xs]
    by (simp add: list_all_iff)
qed

lemma ndim_ge_2: "shape_at a 1 = Inr w \<Longrightarrow> 2 \<le> ndim a"
  by (simp add: shape_at_def ndim_def split: if_splits)

lemma SamplePatch_crop_ok:
  "2 \<le> ndim a \<Longrightarrow> SamplePatch_crop patch_size y x a = Inr (slice_axes [(y, y + patch_size), (x, x + patch_size)] a)"
  by (simp add: SamplePatch_crop_def slice_nd_def)

lemma SamplePatch_image_half:
  assumes "shape_at img 0 = Inr h" "shape_at img 1 = Inr w"
  shows "SamplePatch_transform b patch_size ch cw img Image g =
           (if int h \<le> patch_size then (Inl ValueError, SamplePatch b patch_size ch cw, g)
            else if int w \<le> patch_size
            then (Inl ValueError,
                  SamplePatch b patch_size (int (shd g mod nat (int h - patch_size))) cw, stl g)
            else (SamplePatch_crop patch_size (int (shd g mod nat (int h - patch_size)))
                    (int (shd (stl g) mod nat (int w - patch_size))) img,
                  SamplePatch b patch_size (int (shd g mod nat (int h - patch_size)))
                    (int (shd (stl g) mod nat (int w - patch_size))),
                  stl (stl g)))"
  using assms by (simp add: SamplePatch_transform_def randint_def)

lemma mod_range: "0 < n \<Longrightarrow> int (k mod nat n) < n"
proof -
  assume "0 < n"
  then have "0 < nat n" by simp
  then have "k mod nat n < nat n" by (rule mod_less_divisor)
  then show ?thesis by linarith
qed

text \<open>
  The claim as stated fails: a patch size equal to a dimension does not exceed it, and
  the image half raises ValueError, because the range of offsets \<open>[0, H - patch)\<close> is
  empty.
\<close>

theorem counterexample_patch_equal:
  "shape image_2x2 = [2, 2] \<and> \<not> patch_exceeds 2 2 2
   \<and> fst (transform failing_externals (SamplePatch_init 2 default_kwargs) image_2x2 Image
            (sconst 5)) = Inl ValueError"
  by (simp add: image_2x2_def patch_exceeds_def SamplePatch_init_def SamplePatch_transform_def
        shape_at_def randint_def)

text \<open>
  Claim C4, amended. On an image with at least two axes, the image half of \<open>SamplePatch\<close>
  raises ValueError exactly when \<open>patch_size\<close> is at least the height or at least the
  width. Otherwise it draws the offsets from \<open>[0, H - patch) \<times> [0, W - patch)\<close>, stores
  them and cuts at them; the mask half draws nothing and cuts at the stored offsets. A
  cut at offsets inside the image, for a non-negative patch size, has exactly
  \<open>patch_size\<close> rows and columns: nothing is clipped.
\<close>

theorem SamplePatch_fails_iff:
  assumes "shape_at img 0 = Inr h" "shape_at img 1 = Inr w"
  shows "(fst (transform ext (SamplePatch b patch_size ch cw) img Image g) = Inl ValueError
            \<longleftrightarrow> int h \<le> patch_size \<or> int w \<le> patch_size)
       \<and> (patch_size < int h \<and> patch_size < int w \<longrightarrow>
            (\<exists>y x. 0 \<le> y \<and> y < int h - patch_size \<and> 0 \<le> x \<and> x < int w - patch_size
                \<and> transform ext (SamplePatch b patch_size ch cw) img Image g
                    = (SamplePatch_crop patch_size y x img, SamplePatch b patch_size y x,
                       stl (stl g))))
       \<and> transform ext (SamplePatch b patch_size ch cw) m Mask g
            = (SamplePatch_crop patch_size ch cw m, SamplePatch b patch_size ch cw, g)
       \<and> (0 \<le> patch_size \<and> has_shape (h # w # rest) img
            \<and> 0 \<le> y \<and> y \<le> int h - patch_size \<and> 0 \<le> x \<and> x \<le> int w - patch_size \<longrightarrow>
            (\<exists>r. SamplePatch_crop patch_size y x img = Inr r
                \<and> has_shape (nat patch_size # nat patch_size # rest) r))"
proof -
  have n: "2 \<le> ndim img"
    using assms(2) by (rule ndim_ge_2)
  have a: "fst (transform ext (SamplePatch b patch_size ch cw) img Image g) = Inl ValueError
            \<longleftrightarrow> int h \<le> patch_size \<or> int w \<le> patch_size"
    using n by (simp add: SamplePatch_image_half [OF assms] SamplePatch_crop_ok)
  have s: "\<exists>y x. 0 \<le> y \<and> y < int h - patch_size \<and> 0 \<le> x \<and> x < int w - patch_size
                \<and> transform ext (SamplePatch b patch_size ch cw) img Image g
                    = (SamplePatch_crop patch_size y x img, SamplePatch b patch_size y x,
                       stl (stl g))"
    if "patch_size < int h" "patch_size < int w"
  proof (intro exI conjI)
    show "int (shd g mod nat (int h - patch_size)) < int h - patch_size"
      using that by (simp add: mod_range)
    show "int (shd (stl g) mod nat (int w - patch_size)) < int w - patch_size"
      using that by (simp add: mod_range)
    show "transform ext (SamplePatch b patch_size ch cw) img Image g
          = (SamplePatch_crop patch_size (int (shd g mod nat (int h - patch_size)))
               (int (shd (stl g) mod nat (int w - patch_size))) img,
             SamplePatch b patch_size (int (shd g mod nat (int h - patch_size)))
               (int (shd (stl g) mod nat (int w - patch_size))),
             stl (stl g))"
      using that by (simp add: SamplePatch_image_half [OF assms])
  qed simp_all
  have k: "transform ext (SamplePatch b patch_size ch cw) m Mask g
            = (SamplePatch_crop patch_size ch cw m, SamplePatch b patch_size ch cw, g)"
    by (simp add: SamplePatch_transform_def)
  have c: "\<exists>r. SamplePatch_crop patch_size y x img = Inr r
                \<and> has_shape (nat patch_size # nat patch_size # rest) r"
    if "0 \<le> patch_size" "has_shape (h # w # rest) img"
       "0 \<le> y" "y \<le> int h - patch_size" "0 \<le> x" "x \<le> int w - patch_size"
  proof -
    have "has_shape (nat (y + patch_size - y) # nat (x + patch_size - x) # rest)
            (slice_axes [(y, y + patch_size), (x, x + patch_size)] img)"
      using that(2)
    proof (rule has_shape_slice_two)
      show "y + patch_size \<le> int h" using that by linarith
      show "x + patch_size \<le> int w" using that by linarith
    qed (use that in simp_all)
    then show ?thesis
      using n by (simp add: SamplePatch_crop_ok)
  qed
  show ?thesis
    using a s k c by blast
qed

theorem SamplePatch_fails_iff_witness:
  "shape_at image_3x3 0 = Inr 3 \<and> shape_at image_3x3 1 = Inr 3
   \<and> (1::int) < int 3 \<and> has_shape [3, 3] image_3x3
   \<and> fst (transform failing_externals (SamplePatch_init 1 default_kwargs) image_3x3 Image
            (3 ## 2 ## sconst 0)) = Inr (Arr [Arr [Scalar 4]])
   \<and> fst (transform failing_externals (SamplePatch_init 3 default_kwargs) image_3x3 Image
            (3 ## 2 ## sconst 0)) = Inl ValueError
   \<and> (\<exists>r. SamplePatch_crop 1 2 2 image_3x3 = Inr r \<and> has_shape [nat 1, nat 1] r)"
proof -
  have s: "shape_at image_3x3 0 = Inr 3" "shape_at image_3x3 1 = Inr 3"
    by (simp_all add: shape_at_def image_3x3_def)
  have h: "has_shape [3, 3] image_3x3"
    by (simp add: image_3x3_def)
  have e: "fst (transform failing_externals (SamplePatch_init 1 default_kwargs) image_3x3 Image
            (3 ## 2 ## sconst 0)) = Inr (Arr [Arr [Scalar 4]])"
    by (simp add: SamplePatch_init_def SamplePatch_image_half [OF s])
       (simp add: SamplePatch_crop_def slice_nd_def ndim_def image_3x3_def py_slice_def
          slice_bound_def)
  show ?thesis
    using SamplePatch_fails_iff [OF s, where patch_size = 3 and ext = failing_externals
            and b = "default_kwargs\<lparr>apply_always := True\<rparr>" and ch = 0 and cw = 0
            and g = "3 ## 2 ## sconst 0"]
          SamplePatch_fails_iff [OF s, where patch_size = 1 and y = 2 and x = 2 and rest = "[]"]
          s h e
    by (simp add: SamplePatch_init_def)
qed


section \<open>Squarify\<close>

lemma has_shape_build:
  "(\<And>idx. length idx = length ns \<Longrightarrow> \<exists>x. f idx = Scalar x) \<Longrightarrow> has_shape ns (build ns f)"
proof (induction ns arbitrary: f)
  case Nil
  then obtain x where "f [] = Scalar x" by force
  then show ?case by simp
next
  case (Cons n ns)
  have "has_shape ns (build ns (\<lambda>idx. f (i # idx)))" for i
    by (rule Cons.IH) (simp add: Cons.prems)
  then show ?case by (simp add: list_all_iff)
qed

lemma getitem_build:
  "list_all2 (<) idx ns \<Longrightarrow> getitem idx (build ns f) = Inr (f idx)"
proof (induction idx ns arbitrary: f rule: list_all2_induct)
  case Nil
  then show ?case by simp
next
  case (Cons i idx n ns)
  then show ?case by simp
qed

lemma shape_of_has_shape_3:
  assumes "has_shape [h, w, c] a" "0 < h" "0 < w"
  shows "shape a = [h, w, c]"
proof -
  obtain xs where a: "a = Arr xs" and lx: "length xs = h" and ex: "list_all (has_shape [w, c]) xs"
    using assms(1) by (cases a) auto
  obtain x xs' where xs: "xs = x # xs'"
    using lx assms(2) by (cases xs) auto
  obtain ys where x: "x = Arr ys" and ly: "length ys = w" and ey: "list_all (has_shape [c]) ys"
    using ex xs by (cases x) auto
  obtain y ys' where ys: "ys = y # ys'"
    using ly assms(3) by (cases ys) auto
  obtain zs where y: "y = Arr zs" and lz: "length zs = c" and ez: "list_all (has_shape []) zs"
    using ey ys by (cases y) auto
  have "shape y = [c]"
  proof (cases zs)
    case Nil
    then show ?thesis using y lz by simp
  next
    case (Cons z zs')
    then obtain v where "z = Scalar v" using ez by (cases z) auto
    then show ?thesis using y lz Cons by simp
  qed
  then show ?thesis
    using a lx xs x ly ys by simp
qed

lemma has_shape_slice_axes:
  "list_all2 (\<lambda>s n. 0 \<le> fst s \<and> fst s \<le> snd s \<and> snd s \<le> int n) ss ms
   \<Longrightarrow> has_shape (ms @ rest) a
   \<Longrightarrow> has_shape (map (\<lambda>s. nat (snd s - fst s)) ss @ rest) (slice_axes ss a)"
proof (induction ss ms arbitrary: a rule: list_all2_induct)
  case Nil
  then show ?case by simp
next
  case (Cons s ss n ms)
  obtain xs where a: "a = Arr xs" and l: "length xs = n"
    and e: "list_all (has_shape (ms @ rest)) xs"
    using Cons.prems by (cases a) auto
  have "has_shape (map (\<lambda>s. nat (snd s - fst s)) ss @ rest) (slice_axes ss x)"
    if "x \<in> set (py_slice (fst s) (snd s) xs)" for x
  proof -
    have "has_shape (ms @ rest) x"
      using that e set_py_slice [of "fst s" "snd s" xs] by (auto simp: list_all_iff)
    then show ?thesis by (rule Cons.IH)
  qed
  then show ?case
    using a l Cons.hyps(1) length_py_slice_inside [of "fst s" "snd s" xs]
    by (simp add: list_all_iff)
qed

lemma getitem_slice_axes:
  "list_all2 (\<lambda>s n. 0 \<le> fst s \<and> fst s \<le> snd s \<and> snd s \<le> int n) ss ms
   \<Longrightarrow> list_all2 (\<lambda>i s. i < nat (snd s - fst s)) idx ss
   \<Longrightarrow> has_shape (ms @ rest) a
   \<Longrightarrow> getitem idx (slice_axes ss a) = getitem (map2 (\<lambda>i s. i + nat (fst s)) idx ss) a"
proof (induction ss ms arbitrary: a idx rule: list_all2_induct)
  case Nil
  then show ?case by simp
next
  case (Cons s ss n ms)
  obtain xs where a: "a = Arr xs" and l: "length xs = n"
    and e: "list_all (has_shape (ms @ rest)) xs"
    using Cons.prems(2) by (cases a) auto
  obtain i idx' where idx: "idx = i # idx'" and i: "i < nat (snd s - fst s)"
    and r: "list_all2 (\<lambda>i s. i < nat (snd s - fst s)) idx' ss"
    using Cons.prems(1) by (cases idx) auto
  have sl: "py_slice (fst s) (snd s) xs = take (nat (snd s - fst s)) (drop (nat (fst s)) xs)"
    using Cons.hyps(1) l by (intro py_slice_inside) simp_all
  have in_range: "nat (fst s) + i < length xs"
    using Cons.hyps(1) l i by linarith
  have len: "length (py_slice (fst s) (snd s) xs) = nat (snd s - fst s)"
    using Cons.hyps(1) l by (intro length_py_slice_inside) simp_all
  have nth: "py_slice (fst s) (snd s) xs ! i = xs ! (nat (fst s) + i)"
    using i in_range by (simp add: sl)
  have "has_shape (ms @ rest) (xs ! (nat (fst s) + i))"
    using e in_range by (simp add: list_all_length)
  then have "getitem idx' (slice_axes ss (xs ! (nat (fst s) + i)))
             = getitem (map2 (\<lambda>i s. i + nat (fst s)) idx' ss) (xs ! (nat (fst s) + i))"
    using r by (intro Cons.IH)
  then show ?case
    using a idx i len nth in_range by (simp add: add.commute)
qed


lemma Squarify_crops_100_60_3:
  assumes "shape a = [100, 60, 3]"
  shows "Squarify_crops a = Inr [(20, 20), (0, 0), (0, 0)]"
  using assms
  by (simp add: Squarify_crops_def shape_at_def ndim_def Squarify_side_def)

lemma Squarify_slices_100_60_3:
  assumes "shape a = [100, 60, 3]"
  shows "Squarify_slices a [(20, 20), (0, 0), (0, 0)] = [(20, 80), (0, 60), (0, 3)]"
  using assms by (simp add: Squarify_slices_def enumerate_eq_zip upt_rec)

text \<open>
  Claim C7. On every array of shape \<open>(100, 60, 3)\<close> \<open>Squarify\<close> computes the crops
  \<open>(20, 20)\<close>, \<open>(0, 0)\<close>, \<open>(0, 0)\<close> and returns an array of shape \<open>(60, 60, 3)\<close> whose entry
  at \<open>(i, j, k)\<close> is the entry of the input at \<open>(i + 20, j, k)\<close>: 20 rows are removed
  before and 20 after.
\<close>

theorem Squarify_100_60_3:
  assumes "has_shape [100, 60, 3] a"
  shows "Squarify_crops a = Inr [(20, 20), (0, 0), (0, 0)]
       \<and> (\<exists>b. Squarify_transform a = Inr b \<and> has_shape [60, 60, 3] b
              \<and> (\<forall>i<60. \<forall>j<60. \<forall>k<3. getitem [i, j, k] b = getitem [i + 20, j, k] a))"
proof -
  let ?ss = "[(20, 80), (0, 60), (0, 3)] :: (int \<times> int) list"
  have sh: "shape a = [100, 60, 3]"
    using assms by (rule shape_of_has_shape_3) simp_all
  have cr: "Squarify_crops a = Inr [(20, 20), (0, 0), (0, 0)]"
    using sh by (rule Squarify_crops_100_60_3)
  have tr: "Squarify_transform a = Inr (slice_axes ?ss a)"
    using sh by (simp add: Squarify_transform_def cr Squarify_slices_100_60_3 slice_nd_def ndim_def)
  have ok: "list_all2 (\<lambda>s n. 0 \<le> fst s \<and> fst s \<le> snd s \<and> snd s \<le> int n) ?ss [100, 60, 3]"
    by simp
  have a': "has_shape ([100, 60, 3] @ []) a"
    using assms by simp
  have hs: "has_shape [60, 60, 3] (slice_axes ?ss a)"
    using has_shape_slice_axes [OF ok a'] by simp
  have el: "getitem [i, j, k] (slice_axes ?ss a) = getitem [i + 20, j, k] a"
    if "i < 60" "j < 60" "k < 3" for i j k
  proof -
    have "list_all2 (\<lambda>i s. i < nat (snd s - fst s)) [i, j, k] ?ss"
      using that by simp
    from getitem_slice_axes [OF ok this a'] show ?thesis by simp
  qed
  show ?thesis
    using cr tr hs el by simp
qed

theorem Squarify_100_60_3_witness:
  "has_shape [100, 60, 3] image_100x60x3
   \<and> Squarify_crops image_100x60x3 = Inr [(20, 20), (0, 0), (0, 0)]
   \<and> (\<exists>b. Squarify_transform image_100x60x3 = Inr b \<and> has_shape [60, 60, 3] b
          \<and> getitem [0, 0, 0] b = Inr (Scalar 200000)
          \<and> getitem [59, 59, 2] b = Inr (Scalar 795902))"
proof -
  have h: "has_shape [100, 60, 3] image_100x60x3"
    unfolding image_100x60x3_def by (rule has_shape_build) simp
  have g: "getitem [20, 0, 0] image_100x60x3 = Inr (Scalar 200000)"
          "getitem [79, 59, 2] image_100x60x3 = Inr (Scalar 795902)"
  proof -
    have "list_all2 (<) [20, 0, 0] [100, 60, 3::nat]" "list_all2 (<) [79, 59, 2] [100, 60, 3::nat]"
      by simp_all
    then show "getitem [20, 0, 0] image_100x60x3 = Inr (Scalar 200000)"
      "getitem [79, 59, 2] image_100x60x3 = Inr (Scalar 795902)"
      unfolding image_100x60x3_def by (simp_all only: getitem_build) simp_all
  qed
  obtain b where b: "Squarify_transform image_100x60x3 = Inr b" "has_shape [60, 60, 3] b"
    and e: "\<forall>i<60. \<forall>j<60. \<forall>k<3. getitem [i, j, k] b = getitem [i + 20, j, k] image_100x60x3"
    using Squarify_100_60_3 [OF h] by blast
  have "getitem [0, 0, 0] b = getitem [20, 0, 0] image_100x60x3"
       "getitem [59, 59, 2] b = getitem [79, 59, 2] image_100x60x3"
    using e [rule_format, of 0 0 0] e [rule_format, of 59 59 2]
    by (simp_all del: getitem.simps)
  then have "getitem [0, 0, 0] b = Inr (Scalar 200000)" "getitem [59, 59, 2] b = Inr (Scalar 795902)"
    using g by (simp_all del: getitem.simps)
  then show ?thesis
    using h b Squarify_100_60_3 [OF h] by blast
qed


section \<open>Normalize and ToTensor\<close>

lemma has_shape_build_range:
  "(\<And>idx. list_all2 (<) idx ns \<Longrightarrow> \<exists>x. f idx = Scalar x) \<Longrightarrow> has_shape ns (build ns f)"
proof (induction ns arbitrary: f)
  case Nil
  then obtain x where "f [] = Scalar x" by force
  then show ?case by simp
next
  case (Cons n ns)
  have "has_shape ns (build ns (\<lambda>idx. f (i # idx)))" if "i < n" for i
    by (rule Cons.IH) (simp add: Cons.prems that)
  then show ?case by (simp add: list_all_iff)
qed

lemma getitem_item:
  "list_all2 (<) idx ns \<Longrightarrow> has_shape (ns @ rest) a \<Longrightarrow> getitem idx a = Inr (item idx a)"
proof (induction idx ns arbitrary: a rule: list_all2_induct)
  case Nil
  then show ?case by simp
next
  case (Cons i idx n ns)
  obtain xs where a: "a = Arr xs" and l: "length xs = n"
    and e: "list_all (has_shape (ns @ rest)) xs"
    using Cons.prems by (cases a) auto
  have "has_shape (ns @ rest) (xs ! i)"
    using e l Cons.hyps(1) by (simp add: list_all_length)
  then have "getitem idx (xs ! i) = Inr (item idx (xs ! i))"
    by (rule Cons.IH)
  then show ?case
    using a l Cons.hyps(1) by simp
qed

lemma item_has_shape:
  "list_all2 (<) idx ns \<Longrightarrow> has_shape (ns @ rest) a \<Longrightarrow> has_shape rest (item idx a)"
proof (induction idx ns arbitrary: a rule: list_all2_induct)
  case Nil
  then show ?case by simp
next
  case (Cons i idx n ns)
  obtain xs where a: "a = Arr xs" and l: "length xs = n"
    and e: "list_all (has_shape (ns @ rest)) xs"
    using Cons.prems by (cases a) auto
  have "has_shape (ns @ rest) (xs ! i)"
    using e l Cons.hyps(1) by (simp add: list_all_length)
  then have "has_shape rest (item idx (xs ! i))"
    by (rule Cons.IH)
  then show ?case
    using a by simp
qed

lemma has_shape_Nil: "has_shape [] a \<Longrightarrow> \<exists>x. a = Scalar x"
  by (cases a) simp_all

lemma map_last_cong_shape:
  "has_shape (ns @ [c]) a \<Longrightarrow> (\<And>k x. k < c \<Longrightarrow> f k x = g x)
   \<Longrightarrow> map_last f k0 a = map_elems g a"
proof (induction ns arbitrary: a k0)
  case Nil
  then obtain xs where a: "a = Arr xs" and l: "length xs = c"
    and e: "list_all (has_shape []) xs"
    by (cases a) auto
  have "map_last f i (xs ! i) = map_elems g (xs ! i)" if "i < c" for i
  proof -
    have "has_shape [] (xs ! i)"
      using e l that by (simp add: list_all_length)
    then obtain x where "xs ! i = Scalar x"
      using has_shape_Nil by blast
    then show ?thesis using Nil.prems(2) that by simp
  qed
  then have "map (\<lambda>i. map_last f i (xs ! i)) [0..<length xs] = map (map_elems g) xs"
    using l by (intro nth_equalityI) simp_all
  then show ?case using a by simp
next
  case (Cons n ns)
  then obtain xs where a: "a = Arr xs" and l: "length xs = n"
    and e: "list_all (has_shape (ns @ [c])) xs"
    by (cases a) auto
  have "map_last f i (xs ! i) = map_elems g (xs ! i)" if "i < n" for i
  proof (rule Cons.IH)
    show "has_shape (ns @ [c]) (xs ! i)"
      using e l that by (simp add: list_all_length)
  qed (rule Cons.prems(2))
  then have "map (\<lambda>i. map_last f i (xs ! i)) [0..<length xs] = map (map_elems g) xs"
    using l by (intro nth_equalityI) simp_all
  then show ?case using a by simp
qed

lemma map_elems_ident: "map_elems (\<lambda>x. x) a = a"
  by (induction "\<lambda>x::'a. x" a rule: map_elems.induct) (simp_all add: map_idI)

lemma has_shape_map_elems: "has_shape ns a \<Longrightarrow> has_shape ns (map_elems f a)"
proof (induction ns arbitrary: a)
  case Nil
  then show ?case by (cases a) simp_all
next
  case (Cons n ns)
  then show ?case by (cases a) (auto simp: list_all_iff)
qed

lemma ufunc_out_const:
  assumes "has_shape [h, w, c] data" "0 < h" "0 < w" "v = [z] \<or> v = replicate c z"
  shows "ufunc_out f data v = Inr (map_elems (\<lambda>x. f x z) data)"
proof -
  have sh: "shape data = [h, w, c]"
    using assms(1-3) by (rule shape_of_has_shape_3)
  have ok: "3 \<le> ndim data \<and> (length v = 1 \<or> length v = last (shape data))"
    using sh assms(4) by (auto simp: ndim_def)
  have el: "(if length v = 1 then v ! 0 else v ! k) = z" if "k < c" for k
    using assms(4) that by auto
  have "has_shape ([h, w] @ [c]) data"
    using assms(1) by simp
  then have "map_last (\<lambda>k x. f x (if length v = 1 then v ! 0 else v ! k)) 0 data
             = map_elems (\<lambda>x. f x z) data"
  proof (rule map_last_cong_shape)
    fix k x
    assume "k < c"
    then show "f x (if length v = 1 then v ! 0 else v ! k) = f x z"
      by (simp only: el)
  qed
  then show ?thesis
    using ok by (simp add: ufunc_out_def)
qed

lemma np_transpose_201:
  assumes "has_shape [h, w, c] data" "0 < h" "0 < w"
  shows "np_transpose data [2, 0, 1]
         = Inr (build [c, h, w] (\<lambda>idx. item [idx ! 1, idx ! 2, idx ! 0] data))"
proof -
  have sh: "shape data = [h, w, c]"
    using assms by (rule shape_of_has_shape_3)
  have up: "[0..<3] = [0, 1, 2]"
    by (simp add: upt_rec)
  show ?thesis
    using sh
    by (simp add: np_transpose_def ndim_def up axis_pos_def numeral_2_eq_2
          del: build.simps item.simps)
qed

text \<open>
  Claim C8. Let \<open>data\<close> have shape \<open>(H, W, C)\<close> with \<open>H, W > 0\<close>, and let the arithmetic
  satisfy \<open>x - 0 = x\<close> and \<open>x / 1 = x\<close> (as float32 arithmetic does). \<open>Normalize\<close> with
  \<open>divide=True\<close>, mean 0 and std 1 (given once or per channel) returns every entry
  divided by 255. \<open>ToTensor\<close> with \<open>transpose=True\<close> (no division, no torch conversion)
  returns an array of shape \<open>(C, H, W)\<close> whose entry at \<open>(c, h, w)\<close> is the entry of
  \<open>data\<close> at \<open>(h, w, c)\<close>.
\<close>

theorem Normalize_ToTensor_exact:
  assumes "has_shape [h, w, c] data" "0 < h" "0 < w"
    and "\<And>x. np_subtract ar x zero = x" "\<And>x. np_divide ar x one = x"
    and "mean = [zero] \<or> mean = replicate c zero" "std = [one] \<or> std = replicate c one"
  shows "Normalize_call ar (Normalize_init mean std True) data
           = Inr (map_elems (\<lambda>x. np_divide ar x (c255 ar)) data)
       \<and> (\<exists>b. ToTensor_call ar (ToTensor_init False True contiguous False) data
                  = Inr (NumpyArray b)
              \<and> has_shape [c, h, w] b
              \<and> (\<forall>k<c. \<forall>i<h. \<forall>j<w. getitem [k, i, j] b = getitem [i, j, k] data))"
proof -
  let ?d1 = "map_elems (\<lambda>x. np_divide ar x (c255 ar)) data"
  have h1: "has_shape [h, w, c] ?d1"
    using assms(1) by (rule has_shape_map_elems)
  have "ufunc_out (np_subtract ar) ?d1 mean = Inr (map_elems (\<lambda>x. np_subtract ar x zero) ?d1)"
    using h1 assms(2,3,6) by (rule ufunc_out_const)
  then have s: "ufunc_out (np_subtract ar) ?d1 mean = Inr ?d1"
    by (simp add: assms(4) map_elems_ident)
  have "ufunc_out (np_divide ar) ?d1 std = Inr (map_elems (\<lambda>x. np_divide ar x one) ?d1)"
    using h1 assms(2,3,7) by (rule ufunc_out_const)
  then have d: "ufunc_out (np_divide ar) ?d1 std = Inr ?d1"
    by (simp add: assms(5) map_elems_ident)
  have n: "Normalize_call ar (Normalize_init mean std True) data = Inr ?d1"
    by (simp add: Normalize_call_def Normalize_init_def s d)
  let ?b = "build [c, h, w] (\<lambda>idx. item [idx ! 1, idx ! 2, idx ! 0] data)"
  have full: "has_shape ([h, w, c] @ []) data"
    using assms(1) by simp
  have leaf: "\<exists>x. item [idx ! 1, idx ! 2, idx ! 0] data = Scalar x"
    if r0: "list_all2 (<) idx [c, h, w]" for idx
  proof -
    obtain k i j where idx: "idx = [k, i, j]" and r: "k < c" "i < h" "j < w"
      using r0 by (auto simp: list_all2_Cons2)
    have "list_all2 (<) [i, j, k] [h, w, c]"
      using r by simp
    then have "has_shape [] (item [i, j, k] data)"
      using full by (rule item_has_shape)
    then show ?thesis
      using idx has_shape_Nil by auto
  qed
  have hb: "has_shape [c, h, w] ?b"
    by (rule has_shape_build_range) (rule leaf)
  have cb: "np_ascontiguousarray ?b = ?b"
    by simp
  have tt: "ToTensor_call ar (ToTensor_init False True contiguous False) data
            = Inr (NumpyArray ?b)"
    unfolding ToTensor_call_def ToTensor_init_def
    using np_transpose_201 [OF assms(1-3)] cb by (simp del: build.simps)
  have el: "getitem [k, i, j] ?b = getitem [i, j, k] data"
    if "k < c" "i < h" "j < w" for k i j
  proof -
    have "list_all2 (<) [k, i, j] [c, h, w]"
      using that by simp
    then have "getitem [k, i, j] ?b = Inr (item [[k, i, j] ! 1, [k, i, j] ! 2, [k, i, j] ! 0] data)"
      by (rule getitem_build)
    moreover have "list_all2 (<) [i, j, k] [h, w, c]"
      using that by simp
    then have "getitem [i, j, k] data = Inr (item [i, j, k] data)"
      using full by (rule getitem_item)
    ultimately show ?thesis by simp
  qed
  show ?thesis
    using n tt hb el by blast
qed

theorem Normalize_ToTensor_exact_witness:
  "has_shape [1, 2, 3] pixels_1x2x3
   \<and> Normalize_call real_arith (Normalize_init [0, 0, 0] [1, 1, 1] True) pixels_1x2x3
       = Inr (Arr [Arr [Arr [Scalar 1, Scalar 0, Scalar (1 / 5)],
                        Arr [Scalar (2 / 5), Scalar (3 / 5), Scalar (4 / 5)]]])
   \<and> (\<exists>b. ToTensor_call real_arith (ToTensor_init False True False False) pixels_1x2x3
              = Inr (NumpyArray b)
          \<and> has_shape [3, 1, 2] b
          \<and> getitem [2, 0, 1] b = Inr (Scalar 204))"
proof -
  have h: "has_shape [1, 2, 3] pixels_1x2x3"
    by (simp add: pixels_1x2x3_def)
  have o: "\<And>x. np_subtract real_arith x 0 = x" "\<And>x. np_divide real_arith x 1 = x"
    by (simp_all add: real_arith_def)
  have m: "[0, 0, 0] = [0] \<or> [0, 0, 0] = replicate 3 (0::real)"
          "[1, 1, 1] = [1] \<or> [1, 1, 1] = replicate 3 (1::real)"
    by (simp_all add: numeral_3_eq_3)
  have e: "map_elems (\<lambda>x. np_divide real_arith x (c255 real_arith)) pixels_1x2x3
           = Arr [Arr [Arr [Scalar 1, Scalar 0, Scalar (1 / 5)],
                       Arr [Scalar (2 / 5), Scalar (3 / 5), Scalar (4 / 5)]]]"
    by (simp add: real_arith_def pixels_1x2x3_def)
  have g: "getitem [0, 1, 2] pixels_1x2x3 = Inr (Scalar 204)"
    by (simp add: pixels_1x2x3_def)
  obtain b where b: "ToTensor_call real_arith (ToTensor_init False True False False) pixels_1x2x3
                     = Inr (NumpyArray b)" "has_shape [3, 1, 2] b"
    and el: "\<forall>k<3. \<forall>i<1. \<forall>j<2. getitem [k, i, j] b = getitem [i, j, k] pixels_1x2x3"
    using Normalize_ToTensor_exact [OF h _ _ o m, of False] by auto
  have "getitem [2, 0, 1] b = getitem [0, 1, 2] pixels_1x2x3"
    using el [rule_format, of 2 0 1] by (simp del: getitem.simps)
  then have "getitem [2, 0, 1] b = Inr (Scalar 204)"
    using g by (simp del: getitem.simps)
  then show ?thesis
    using h e b Normalize_ToTensor_exact [OF h _ _ o m, of False] by auto
qed


end
